theory Spec2Isabelle
  imports Complex_Main "HOL-Library.AList" "HOL-Library.Sublist" "HOL-Library.Multiset"
begin

section \<open>Python values used by the analyzers\<close>

text \<open>
  Strings are \<open>string\<close>. \<open>str_in sub s\<close> is Python's \<open>sub in s\<close> on strings,
  \<open>startswith s p\<close> is \<open>s.startswith(p)\<close>, and \<open>truthy\<close> is the truth value Python
  gives to an optional string (\<open>None\<close> and \<open>''\<close> are false).
\<close>

fun str_in :: "string \<Rightarrow> string \<Rightarrow> bool" where
  "str_in sub [] = (sub = [])"
| "str_in sub (c # cs) = (prefix sub (c # cs) \<or> str_in sub cs)"

definition startswith :: "string \<Rightarrow> string \<Rightarrow> bool" where
  "startswith s p = prefix p s"

fun truthy :: "string option \<Rightarrow> bool" where
  "truthy None = False"
| "truthy (Some s) = (s \<noteq> [])"

datatype py_error = AttributeError | KeyError

section \<open>Lead scoring (business\_intelligence\_analyzer.py)\<close>

text \<open>
  The five dictionaries \<open>calculate_lead_scoring\<close> receives are the ones the extractors of
  the same class build, so every key is present. \<open>extract_company_profile\<close> initialises
  \<open>industry\<close>, \<open>business_size\<close>, \<open>location\<close> and \<open>employees\<close> to \<open>None\<close> and
  overwrites them with strings when it finds something (it never assigns
  \<open>business_size\<close>). The three detector scores are Python integers.
\<close>

record company_profile =
  industry :: "string option"
  business_size :: "string option"
  location :: "string option"
  employees :: "string option"

record social_intel =
  social_engagement_score :: int
  social_budget_indicators :: "string list"

record tech_analysis =
  tech_sophistication_score :: int
  agency_opportunities :: "string list"

record budget_analysis =
  overall_budget_level :: string

record contact_intel =
  sales_readiness_score :: int

text \<open>
  The result dictionary. \<open>category_scores\<close> is a dictionary filled key by key, kept here
  as an association list in insertion order; \<open>AList.update\<close> is \<open>d[k] = v\<close>.
\<close>

record lead_scoring =
  overall_score :: int
  category_scores :: "(string \<times> int) list"
  lead_quality :: string
  sales_priority :: string
  conversion_probability :: string
  deal_size_estimate :: string
  sales_cycle_estimate :: string

definition lead_scoring_init :: lead_scoring where
  "lead_scoring_init =
     \<lparr> overall_score = 0, category_scores = [],
       lead_quality = ''unknown'', sales_priority = ''unknown'',
       conversion_probability = ''unknown'', deal_size_estimate = ''unknown'',
       sales_cycle_estimate = ''unknown'' \<rparr>"

text \<open>Company profile scoring (25 points), lines 1193-1209.\<close>

definition company_profile_scoring :: "company_profile \<Rightarrow> int" where
  "company_profile_scoring cp =
     (let profile_score = 0;
          profile_score =
            (if industry cp \<in> set [Some ''saas'', Some ''ecommerce'', Some ''consulting'']
             then profile_score + 8
             else if truthy (industry cp) then profile_score + 5
             else profile_score);
          profile_score =
            (case employees cp of
               None \<Rightarrow> profile_score
             | Some e \<Rightarrow>
                 if e = [] then profile_score
                 else if list_ex (\<lambda>indicator. str_in indicator e) [''100+'', ''50-'']
                 then profile_score + 8
                 else profile_score + 4);
          profile_score =
            (if truthy (location cp) then profile_score + 4 else profile_score)
      in min profile_score 25)"

text \<open>Social media intelligence scoring (20 points), lines 1211-1216.\<close>

definition social_intelligence_scoring :: "social_intel \<Rightarrow> int" where
  "social_intelligence_scoring si =
     (let social_score = min (social_engagement_score si div 3) 15;
          social_score =
            (if social_budget_indicators si \<noteq> [] then social_score + 5 else social_score)
      in min social_score 20)"

text \<open>Technology sophistication scoring (20 points), lines 1218-1223.\<close>

definition technology_scoring :: "tech_analysis \<Rightarrow> int" where
  "technology_scoring ta =
     (let tech_score = min (tech_sophistication_score ta div 2) 15;
          tech_score =
            (if agency_opportunities ta \<noteq> [] then tech_score + 5 else tech_score)
      in min tech_score 20)"

text \<open>Budget analysis scoring (25 points), lines 1225-1237.\<close>

definition budget_scoring :: "budget_analysis \<Rightarrow> int" where
  "budget_scoring ba =
     (let budget_level = overall_budget_level ba
      in if budget_level = ''high'' then 25
         else if budget_level = ''medium-high'' then 20
         else if budget_level = ''medium'' then 15
         else 5)"

text \<open>Contact accessibility scoring (10 points), lines 1239-1241.\<close>

definition contact_accessibility_scoring :: "contact_intel \<Rightarrow> int" where
  "contact_accessibility_scoring ci = min (sales_readiness_score ci div 2) 10"

text \<open>The tier chain, lines 1246-1270: it reads only \<open>overall_score\<close>.\<close>

definition determine_lead_quality :: "lead_scoring \<Rightarrow> lead_scoring" where
  "determine_lead_quality ls =
     (if overall_score ls \<ge> 80 then
        ls\<lparr> lead_quality := ''premium'', sales_priority := ''immediate'',
            conversion_probability := ''high'',
            deal_size_estimate := ''$10,000-$100,000+'',
            sales_cycle_estimate := ''1-3 months'' \<rparr>
      else if overall_score ls \<ge> 60 then
        ls\<lparr> lead_quality := ''qualified'', sales_priority := ''high'',
            conversion_probability := ''medium-high'',
            deal_size_estimate := ''$5,000-$25,000'',
            sales_cycle_estimate := ''2-6 months'' \<rparr>
      else if overall_score ls \<ge> 40 then
        ls\<lparr> lead_quality := ''potential'', sales_priority := ''medium'',
            conversion_probability := ''medium'',
            deal_size_estimate := ''$2,000-$10,000'',
            sales_cycle_estimate := ''3-12 months'' \<rparr>
      else
        ls\<lparr> lead_quality := ''nurture'', sales_priority := ''low'',
            conversion_probability := ''low'',
            deal_size_estimate := ''$500-$5,000'',
            sales_cycle_estimate := ''6-18+ months'' \<rparr>)"

text \<open>
  The first part of \<open>calculate_lead_scoring\<close>, lines 1182-1270: the local dictionary
  \<open>lead_scoring\<close> as it stands when control reaches line 1272, with the five category
  entries, their sum, and the tier fields. It is an intermediate state, not the result
  of the function, which is \<open>calculate_lead_scoring\<close> below.
\<close>

definition score_lead ::
  "company_profile \<Rightarrow> social_intel \<Rightarrow> tech_analysis \<Rightarrow> budget_analysis \<Rightarrow> contact_intel
     \<Rightarrow> lead_scoring" where
  "score_lead cp si ta ba ci =
     (let ls = lead_scoring_init;
          ls = ls\<lparr>category_scores :=
                 AList.update ''company_profile'' (company_profile_scoring cp)
                   (category_scores ls)\<rparr>;
          ls = ls\<lparr>category_scores :=
                 AList.update ''social_intelligence'' (social_intelligence_scoring si)
                   (category_scores ls)\<rparr>;
          ls = ls\<lparr>category_scores :=
                 AList.update ''technology'' (technology_scoring ta) (category_scores ls)\<rparr>;
          ls = ls\<lparr>category_scores :=
                 AList.update ''budget'' (budget_scoring ba) (category_scores ls)\<rparr>;
          ls = ls\<lparr>category_scores :=
                 AList.update ''contact_accessibility'' (contact_accessibility_scoring ci)
                   (category_scores ls)\<rparr>;
          ls = ls\<lparr>overall_score := sum_list (map snd (category_scores ls))\<rparr>
      in determine_lead_quality ls)"

text \<open>
  The rest of \<open>calculate_lead_scoring\<close> (lines 1272-1293) calls five report helpers. Their
  texts are not modelled, only whether they raise:
  \<^item> \<open>_generate_detailed_action_plan\<close> and \<open>_identify_quick_wins\<close> evaluate
    \<open>company_profile.get('industry', '').lower()\<close>; the key is present, so a \<open>None\<close>
    industry is returned as it is and \<open>.lower()\<close> raises \<open>AttributeError\<close>;
  \<^item> \<open>_generate_score_explanations\<close> evaluates \<open>industry.title()\<close> and \<open>size.title()\<close>
    on the values of \<open>industry\<close> and \<open>business_size\<close>;
  \<^item> \<open>_get_industry_benchmarks\<close> lowers the industry again;
  \<^item> \<open>_generate_business_impact_explanations\<close> evaluates
    \<open>lead_scoring['next_actions'][0]\<close>, where \<open>next_actions\<close> is the dictionary returned by
    \<open>_generate_detailed_action_plan\<close>, whose keys are strings: \<open>KeyError\<close>.
\<close>

definition generate_detailed_action_plan :: "company_profile \<Rightarrow> py_error + unit" where
  "generate_detailed_action_plan cp =
     (case industry cp of None \<Rightarrow> Inl AttributeError | Some _ \<Rightarrow> Inr ())"

definition identify_quick_wins :: "company_profile \<Rightarrow> py_error + unit" where
  "identify_quick_wins cp =
     (case industry cp of None \<Rightarrow> Inl AttributeError | Some _ \<Rightarrow> Inr ())"

definition generate_score_explanations :: "company_profile \<Rightarrow> py_error + unit" where
  "generate_score_explanations cp =
     (case industry cp of
        None \<Rightarrow> Inl AttributeError
      | Some _ \<Rightarrow>
          (case business_size cp of None \<Rightarrow> Inl AttributeError | Some _ \<Rightarrow> Inr ()))"

definition get_industry_benchmarks :: "company_profile \<Rightarrow> py_error + unit" where
  "get_industry_benchmarks cp =
     (case industry cp of None \<Rightarrow> Inl AttributeError | Some _ \<Rightarrow> Inr ())"

definition generate_business_impact_explanations :: "company_profile \<Rightarrow> py_error + unit" where
  "generate_business_impact_explanations cp =
     (case industry cp of None \<Rightarrow> Inl AttributeError | Some _ \<Rightarrow> Inl KeyError)"

definition calculate_lead_scoring ::
  "company_profile \<Rightarrow> social_intel \<Rightarrow> tech_analysis \<Rightarrow> budget_analysis \<Rightarrow> contact_intel
     \<Rightarrow> py_error + lead_scoring" where
  "calculate_lead_scoring cp si ta ba ci =
     (let ls = score_lead cp si ta ba ci
      in case generate_detailed_action_plan cp of Inl e \<Rightarrow> Inl e | Inr _ \<Rightarrow>
         (case identify_quick_wins cp of Inl e \<Rightarrow> Inl e | Inr _ \<Rightarrow>
         (case generate_score_explanations cp of Inl e \<Rightarrow> Inl e | Inr _ \<Rightarrow>
         (case get_industry_benchmarks cp of Inl e \<Rightarrow> Inl e | Inr _ \<Rightarrow>
         (case generate_business_impact_explanations cp of Inl e \<Rightarrow> Inl e | Inr _ \<Rightarrow>
            Inr ls)))))"

section \<open>SEO score (website\_analyzer.py)\<close>

text \<open>
  \<open>seo_analysis\<close> is the dictionary \<open>analyze_seo\<close> assembles from its sub-analyses; each
  nested dictionary is a record holding the keys \<open>calculate_seo_score\<close> reads, plus
  \<open>canonical\<close> and \<open>google_maps_embed\<close>, which it does not read. Lengths and counts are
  results of \<open>len\<close>. \<open>alt_text_percentage\<close> is \<open>(images_with_alt / total_images) * 100\<close>,
  a float (or the integer 0 when the page has no image); it is only compared with 80 and
  50, and every float is a rational number. \<open>json_ld_schemas\<close> lists the JSON-LD blocks
  that parsed, \<open>microdata\<close> the \<open>itemtype\<close> attributes, \<open>minification_indicators\<close> the keys
  (\<open>js\<close>, \<open>css\<close>) that were set.
\<close>

record meta_tags =
  title :: "string option"
  title_length :: nat
  description :: "string option"
  description_length :: nat
  canonical :: "string option"

record header_counts =
  h1 :: nat
  h2 :: nat
  h3 :: nat
  h4 :: nat
  h5 :: nat
  h6 :: nat

record images =
  alt_text_percentage :: rat
  lazy_loading :: nat

record schema_markup =
  json_ld_schemas :: "string list"
  microdata :: "string list"

record local_seo =
  nap_phone :: bool
  nap_address :: bool
  local_schema :: bool
  google_maps_embed :: bool

record url_structure =
  seo_friendly :: bool
  breadcrumbs :: bool

record page_speed_indicators =
  minification_indicators :: "string list"
  cdn_usage :: bool

record seo_analysis =
  seo_meta_tags :: meta_tags
  seo_header_counts :: header_counts
  seo_images :: images
  seo_schema_markup :: schema_markup
  seo_local_seo :: local_seo
  seo_url_structure :: url_structure
  seo_page_speed_indicators :: page_speed_indicators

text \<open>\<open>sum(headers['header_counts'].values())\<close> over the six keys \<open>h1\<close> .. \<open>h6\<close>.\<close>

definition header_total :: "header_counts \<Rightarrow> nat" where
  "header_total hc = sum_list [h1 hc, h2 hc, h3 hc, h4 hc, h5 hc, h6 hc]"

definition calculate_seo_score :: "seo_analysis \<Rightarrow> int" where
  "calculate_seo_score sa =
     (let score = 0;
          max_score = 100;
          \<comment> \<open>Title and meta tags (25 points)\<close>
          mt = seo_meta_tags sa;
          score =
            (if truthy (title mt) then
               (let score = score + 10;
                    title_len = title_length mt
                in if 30 \<le> title_len \<and> title_len \<le> 60 then score + 5 else score)
             else score);
          score =
            (if truthy (description mt) then
               (let score = score + 5;
                    desc_len = description_length mt
                in if 120 \<le> desc_len \<and> desc_len \<le> 160 then score + 5 else score)
             else score);
          \<comment> \<open>Header structure (15 points)\<close>
          headers = seo_header_counts sa;
          score = (if h1 headers = 1 then score + 10 else score);
          score = (if header_total headers \<ge> 3 then score + 5 else score);
          \<comment> \<open>Images (15 points)\<close>
          imgs = seo_images sa;
          alt_percentage = alt_text_percentage imgs;
          score =
            (if alt_percentage \<ge> 80 then score + 10
             else if alt_percentage \<ge> 50 then score + 5
             else score);
          score = (if lazy_loading imgs > 0 then score + 5 else score);
          \<comment> \<open>Schema markup (15 points)\<close>
          schema = seo_schema_markup sa;
          score =
            (if json_ld_schemas schema \<noteq> [] \<or> microdata schema \<noteq> [] then score + 15
             else score);
          \<comment> \<open>Local SEO (10 points)\<close>
          local = seo_local_seo sa;
          score = (if nap_phone local \<and> nap_address local then score + 5 else score);
          score = (if local_schema local then score + 5 else score);
          \<comment> \<open>URL structure (10 points)\<close>
          url_struct = seo_url_structure sa;
          score = (if seo_friendly url_struct then score + 5 else score);
          score = (if breadcrumbs url_struct then score + 5 else score);
          \<comment> \<open>Page speed indicators (10 points)\<close>
          speed = seo_page_speed_indicators sa;
          score = (if minification_indicators speed \<noteq> [] then score + 5 else score);
          score = (if cdn_usage speed then score + 5 else score)
      in min score max_score)"

section \<open>Technology detection (business\_intelligence\_analyzer.py)\<close>

text \<open>
  \<open>lower\<close> is \<open>str.lower()\<close> on ASCII text: the letters A-Z are mapped to a-z and every
  other byte is kept.
\<close>

definition lower_char :: "char \<Rightarrow> char" where
  "lower_char c =
     (case map_of (zip ''ABCDEFGHIJKLMNOPQRSTUVWXYZ'' ''abcdefghijklmnopqrstuvwxyz'') c of
        Some l \<Rightarrow> l
      | None \<Rightarrow> c)"

definition lower :: "string \<Rightarrow> string" where
  "lower s = map lower_char s"

text \<open>
  One entry of \<open>self.tech_patterns\<close>. The regular expression engine is not part of the
  repository: \<open>search pattern s\<close> stands for \<open>re.search(pattern, s)\<close> finding a match.
  Of the parsed page, \<open>analyze_tech_stack\<close> reads \<open>str(soup)\<close>, the \<open>src\<close> attribute of
  every \<open>script\<close> element and the \<open>href\<close> attribute of every \<open>link\<close> element
  (\<open>None\<close> when the attribute is absent).
\<close>

record tech_config =
  patterns :: "string list"
  indicators :: "string list"
  tech_category :: string
  cost_indicator :: string
  agency_opportunity :: string

record soup =
  page_source :: string
  script_srcs :: "string option list"
  link_hrefs :: "string option list"

record detected_technology =
  confidence :: int
  evidence :: "string list"
  detected_category :: string
  detected_cost_indicator :: string
  detected_agency_opportunity :: string

text \<open>
  The loop \<open>for pattern in config['patterns']: if re.search(pattern, s): detection_score
  += weight; evidence.append(f"{label}_{pattern}")\<close>. The source runs it on the page HTML
  (weight 2, label \<open>pattern\<close>), on each script \<open>src\<close> (weight 3, label \<open>script\<close>) and on
  each link \<open>href\<close> (weight 2, label \<open>link\<close>). The state is
  \<open>(detection_score, evidence)\<close>.
\<close>

fun match_patterns ::
  "(string \<Rightarrow> string \<Rightarrow> bool) \<Rightarrow> int \<Rightarrow> string \<Rightarrow> string \<Rightarrow> string list
     \<Rightarrow> int \<times> string list \<Rightarrow> int \<times> string list" where
  "match_patterns search weight label s [] st = st"
| "match_patterns search weight label s (pattern # rest) (detection_score, evid) =
     match_patterns search weight label s rest
       (if search pattern s
        then (detection_score + weight, evid @ [label @ ''_'' @ pattern])
        else (detection_score, evid))"

text \<open>\<open>for indicator in config.get('indicators', [])\<close>, lines 777-780.\<close>

fun check_indicators ::
  "string \<Rightarrow> string list \<Rightarrow> int \<times> string list \<Rightarrow> int \<times> string list" where
  "check_indicators page_html [] st = st"
| "check_indicators page_html (indicator # rest) (detection_score, evid) =
     check_indicators page_html rest
       (if str_in (lower indicator) page_html
        then (detection_score + 3, evid @ [''indicator_'' @ indicator])
        else (detection_score, evid))"

text \<open>\<open>for script in scripts: if script.get('src'): ...\<close>, lines 783-789.\<close>

fun check_scripts ::
  "(string \<Rightarrow> string \<Rightarrow> bool) \<Rightarrow> string list \<Rightarrow> string option list
     \<Rightarrow> int \<times> string list \<Rightarrow> int \<times> string list" where
  "check_scripts search pats [] st = st"
| "check_scripts search pats (script # rest) st =
     check_scripts search pats rest
       (case script of
          None \<Rightarrow> st
        | Some src \<Rightarrow>
            if src = [] then st
            else match_patterns search 3 ''script'' (lower src) pats st)"

text \<open>\<open>for link in links: if link.get('href'): ...\<close>, lines 791-797.\<close>

fun check_links ::
  "(string \<Rightarrow> string \<Rightarrow> bool) \<Rightarrow> string list \<Rightarrow> string option list
     \<Rightarrow> int \<times> string list \<Rightarrow> int \<times> string list" where
  "check_links search pats [] st = st"
| "check_links search pats (link # rest) st =
     check_links search pats rest
       (case link of
          None \<Rightarrow> st
        | Some href \<Rightarrow>
            if href = [] then st
            else match_patterns search 2 ''link'' (lower href) pats st)"

text \<open>
  The patterns the guard and inner loop of lines 783-789 (and 791-797) count for one
  attribute value: none when the attribute is absent or empty, otherwise those that
  match the lowered value. It is used to state what the two loops add up.
\<close>

definition attr_matches ::
  "(string \<Rightarrow> string \<Rightarrow> bool) \<Rightarrow> string list \<Rightarrow> string option \<Rightarrow> string list" where
  "attr_matches search pats attr =
     (case attr of
        None \<Rightarrow> []
      | Some v \<Rightarrow> if v = [] then [] else filter (\<lambda>p. search p (lower v)) pats)"

text \<open>The body of the loop over \<open>self.tech_patterns\<close> up to line 797.\<close>

definition detect_technology ::
  "(string \<Rightarrow> string \<Rightarrow> bool) \<Rightarrow> soup \<Rightarrow> tech_config \<Rightarrow> int \<times> string list" where
  "detect_technology search sp config =
     (let page_html = lower (page_source sp);
          st = (0, []);
          st = match_patterns search 2 ''pattern'' page_html (patterns config) st;
          st = check_indicators page_html (indicators config) st;
          st = check_scripts search (patterns config) (script_srcs sp) st;
          st = check_links search (patterns config) (link_hrefs sp) st
      in st)"

text \<open>
  Lines 766-808: the loop over \<open>self.tech_patterns\<close> (a dictionary, here in insertion
  order), filling \<open>detected_technologies\<close> and adding up \<open>tech_sophistication_score\<close>. The
  state is the pair of the two.
\<close>

fun detect_all ::
  "(string \<Rightarrow> string \<Rightarrow> bool) \<Rightarrow> soup \<Rightarrow> (string \<times> tech_config) list
     \<Rightarrow> (string \<times> detected_technology) list \<times> int
     \<Rightarrow> (string \<times> detected_technology) list \<times> int" where
  "detect_all search sp [] st = st"
| "detect_all search sp ((tech, config) # rest) (detected, sophistication) =
     (let (detection_score, evid) = detect_technology search sp config
      in detect_all search sp rest
           (if detection_score > 0
            then (AList.update tech
                    \<lparr> confidence = min (detection_score * 10) 100,
                      evidence = evid,
                      detected_category = tech_category config,
                      detected_cost_indicator = cost_indicator config,
                      detected_agency_opportunity = agency_opportunity config \<rparr>
                    detected,
                  sophistication + detection_score)
            else (detected, sophistication)))"

definition analyze_tech_stack ::
  "(string \<Rightarrow> string \<Rightarrow> bool) \<Rightarrow> (string \<times> tech_config) list \<Rightarrow> soup
     \<Rightarrow> (string \<times> detected_technology) list \<times> int" where
  "analyze_tech_stack search tech_patterns sp = detect_all search sp tech_patterns ([], 0)"

section \<open>Recommendation merge (website\_analyzer.py)\<close>

text \<open>
  An opportunity dictionary as the detectors build it, plus the \<open>category\<close> key that
  \<open>generate_recommendations\<close> adds. A value of the \<open>analysis\<close> dictionary is either not a
  dictionary, or a dictionary without or with an \<open>opportunities\<close> key. \<open>analysis\<close> itself
  is kept in insertion order, which is the order \<open>analysis.items()\<close> yields. Each
  opportunity is tagged by assignment to the dictionary object; in \<open>analyze_website\<close> no
  object is in two lists, so the lists are modelled by value.
\<close>

record opportunity =
  priority :: string
  recommendation :: string
  implementation :: string
  impact :: string
  category :: "string option"

datatype analysis_value = NotADict | Dict "opportunity list option"

text \<open>\<open>s.replace(old, new)\<close> for a non-empty \<open>old\<close>: every occurrence, left to right.\<close>

function str_replace :: "string \<Rightarrow> string \<Rightarrow> string \<Rightarrow> string" where
  "str_replace old new [] = []"
| "str_replace old new (c # cs) =
     (if old \<noteq> [] \<and> prefix old (c # cs)
      then new @ str_replace old new (drop (length old) (c # cs))
      else c # str_replace old new cs)"
  by pat_completeness auto
termination
  by (relation "measure (\<lambda>(old, new, s). length s)") auto

text \<open>The inner loop, lines 1443-1445.\<close>

fun tag_opportunities ::
  "string \<Rightarrow> opportunity list \<Rightarrow> opportunity list \<Rightarrow> opportunity list" where
  "tag_opportunities analysis_type [] all_recommendations = all_recommendations"
| "tag_opportunities analysis_type (opp # rest) all_recommendations =
     tag_opportunities analysis_type rest
       (all_recommendations
          @ [opp\<lparr>category := Some (str_replace ''_analysis'' [] analysis_type)\<rparr>])"

text \<open>The outer loop, lines 1441-1445.\<close>

fun collect_opportunities ::
  "(string \<times> analysis_value) list \<Rightarrow> opportunity list \<Rightarrow> opportunity list" where
  "collect_opportunities [] all_recommendations = all_recommendations"
| "collect_opportunities ((analysis_type, analysis_data) # rest) all_recommendations =
     collect_opportunities rest
       (case analysis_data of
          Dict (Some opps) \<Rightarrow> tag_opportunities analysis_type opps all_recommendations
        | _ \<Rightarrow> all_recommendations)"

text \<open>\<open>priority_order.get(x['priority'], 3)\<close>.\<close>

definition priority_order :: "string \<Rightarrow> nat" where
  "priority_order p =
     (if p = ''high'' then 0 else if p = ''medium'' then 1 else if p = ''low'' then 2 else 3)"

text \<open>
  \<open>list.sort(key=...)\<close> is a stable sort; \<open>sort_key\<close> is the stable insertion sort of the
  library, and a stable sort's result is determined by the list and the key.
\<close>

definition generate_recommendations ::
  "(string \<times> analysis_value) list \<Rightarrow> opportunity list" where
  "generate_recommendations analysis =
     (let all_recommendations = collect_opportunities analysis []
      in sort_key (\<lambda>x. priority_order (priority x)) all_recommendations)"

section \<open>URL validation and batch endpoints (api\_server.py, business\_intelligence\_api.py)\<close>

datatype api_error = APIError string nat

text \<open>
  \<open>api_server.validate_url\<close>. The argument is \<open>data.get('url')\<close> or a list element:
  \<open>None\<close> or a string. \<open>urlparse\<close> is the standard library's; it is a parameter
  returning the \<open>scheme\<close> and \<open>netloc\<close> of the result, or \<open>None\<close> when it raises. The
  \<open>APIError\<close> raised inside the \<open>try\<close> is caught by \<open>except Exception\<close> and raised
  again with the same message.
\<close>

definition validate_url ::
  "(string \<Rightarrow> (string \<times> string) option) \<Rightarrow> string option \<Rightarrow> api_error + string" where
  "validate_url urlparse url_arg =
     (case url_arg of
        None \<Rightarrow> Inl (APIError ''URL is required'' 400)
      | Some url \<Rightarrow>
          if url = [] then Inl (APIError ''URL is required'' 400)
          else
            (let url = (if \<not> (startswith url ''http://'' \<or> startswith url ''https://'')
                        then ''https://'' @ url else url)
             in case urlparse url of
                  None \<Rightarrow> Inl (APIError ''Invalid URL format'' 400)
                | Some (scheme, netloc) \<Rightarrow>
                    if \<not> (scheme \<noteq> [] \<and> netloc \<noteq> [])
                    then Inl (APIError ''Invalid URL format'' 400)
                    else if list_ex (\<lambda>dangerous. str_in dangerous (lower url))
                              [''localhost'', ''127.0.0.1'', ''0.0.0.0'']
                    then Inl (APIError ''Invalid URL - localhost not allowed'' 400)
                    else Inr url))"

text \<open>\<open>business_intelligence_api.validate_url\<close>, lines 64-72.\<close>

definition bi_validate_url :: "string option \<Rightarrow> api_error + string" where
  "bi_validate_url url_arg =
     (case url_arg of
        None \<Rightarrow> Inl (APIError ''URL is required'' 400)
      | Some url \<Rightarrow>
          if url = [] then Inl (APIError ''URL is required'' 400)
          else
            (let url = (if \<not> (startswith url ''http://'' \<or> startswith url ''https://'')
                        then ''https://'' @ url else url)
             in Inr url))"

text \<open>
  The batch endpoints. A request body is \<open>None\<close> when \<open>request.get_json()\<close> is false
  (nothing, or an empty object); otherwise it carries \<open>urls\<close> (\<open>None\<close> when the key is
  absent or its value is not a list) and \<open>analysis_type\<close>. List elements are strings.
  The analyzer is outside the endpoint: \<open>analyze n url\<close> is what the call made after
  \<open>n\<close> earlier analyzer calls of the same request does: it returns a result, returns
  \<open>None\<close> (the fetch failed), or raises an exception whose text is given. The endpoint's
  result is paired with the list of URLs it passed to the analyzer, in call order. The
  rate limiter in front of the handler is not modelled.
\<close>

datatype 'r outcome = Returned "'r option" | Raised string

record batch_body =
  urls :: "string list option"
  analysis_type :: string

record 'd batch_entry =
  entry_url :: string
  entry_status :: string
  entry_data :: "'d option"
  entry_error :: "string option"

record 'd batch_response =
  results :: "'d batch_entry list"
  total_urls :: nat
  successful :: nat
  failed :: nat

text \<open>\<open>api_server.analyze_batch\<close>, lines 365-367: validation stops at the first error.\<close>

fun validate_all ::
  "(string \<Rightarrow> (string \<times> string) option) \<Rightarrow> string list \<Rightarrow> string list
     \<Rightarrow> api_error + string list" where
  "validate_all urlparse [] validated_urls = Inr validated_urls"
| "validate_all urlparse (url # rest) validated_urls =
     (case validate_url urlparse (Some url) of
        Inl e \<Rightarrow> Inl e
      | Inr v \<Rightarrow> validate_all urlparse rest (validated_urls @ [v]))"

text \<open>
  The body of the loop at lines 373-403: one analyzer call, one entry. \<open>process\<close> is
  \<open>extract_seo_data\<close>, \<open>extract_automation_data\<close> or \<open>asdict\<close>, chosen by
  \<open>analysis_type\<close>.
\<close>

definition batch_entry_of :: "('r \<Rightarrow> 'd) \<Rightarrow> string \<Rightarrow> 'r outcome \<Rightarrow> 'd batch_entry" where
  "batch_entry_of process url out =
     (case out of
        Returned (Some result) \<Rightarrow>
          \<lparr> entry_url = url, entry_status = ''success'',
            entry_data = Some (process result), entry_error = None \<rparr>
      | Returned None \<Rightarrow>
          \<lparr> entry_url = url, entry_status = ''error'',
            entry_data = None, entry_error = Some ''Analysis failed'' \<rparr>
      | Raised msg \<Rightarrow>
          \<lparr> entry_url = url, entry_status = ''error'',
            entry_data = None, entry_error = Some msg \<rparr>)"

text \<open>The loop itself; the state is \<open>(results, calls)\<close>.\<close>

fun analyze_each ::
  "(nat \<Rightarrow> string \<Rightarrow> 'r outcome) \<Rightarrow> ('r \<Rightarrow> 'd) \<Rightarrow> string list
     \<Rightarrow> 'd batch_entry list \<times> string list \<Rightarrow> 'd batch_entry list \<times> string list" where
  "analyze_each analyze process [] st = st"
| "analyze_each analyze process (url # rest) (res, calls) =
     analyze_each analyze process rest
       (res @ [batch_entry_of process url (analyze (length calls) url)], calls @ [url])"

definition analyze_batch ::
  "(string \<Rightarrow> (string \<times> string) option) \<Rightarrow> (nat \<Rightarrow> string \<Rightarrow> 'r outcome)
     \<Rightarrow> ('r \<Rightarrow> 'd) \<Rightarrow> ('r \<Rightarrow> 'd) \<Rightarrow> ('r \<Rightarrow> 'd) \<Rightarrow> batch_body option
     \<Rightarrow> (api_error + 'd batch_response) \<times> string list" where
  "analyze_batch urlparse analyze extract_seo_data extract_automation_data asdict data =
     (case data of
        None \<Rightarrow> (Inl (APIError ''Request body is required'' 400), [])
      | Some body \<Rightarrow>
          (case urls body of
             None \<Rightarrow> (Inl (APIError ''URLs array is required'' 400), [])
           | Some us \<Rightarrow>
               if us = [] then (Inl (APIError ''URLs array is required'' 400), [])
               else if length us > 5
               then (Inl (APIError ''Maximum 5 URLs allowed per batch'' 400), [])
               else
                 (case validate_all urlparse us [] of
                    Inl e \<Rightarrow> (Inl e, [])
                  | Inr validated_urls \<Rightarrow>
                      (let process =
                             (if analysis_type body = ''seo'' then extract_seo_data
                              else if analysis_type body = ''automation''
                              then extract_automation_data
                              else asdict);
                           (res, calls) = analyze_each analyze process validated_urls ([], []);
                           successful_analyses =
                             length (filter (\<lambda>r. entry_status r = ''success'') res)
                       in (Inr \<lparr> results = res, total_urls = length us,
                                 successful = successful_analyses,
                                 failed = length us - successful_analyses \<rparr>,
                           calls)))))"

text \<open>
  \<open>business_intelligence_api.batch_lead_scoring\<close>, lines 859-917: the checks and the
  loop, where validation is inside the per-URL \<open>try\<close> and \<open>str\<close> of an \<open>APIError\<close> is
  empty. \<open>summarize\<close> builds \<open>lead_summary\<close> from a result and may raise. The ranking and
  statistics computed from \<open>results\<close> afterwards are left out.
\<close>

fun score_each ::
  "(nat \<Rightarrow> string \<Rightarrow> 'r outcome) \<Rightarrow> ('r \<Rightarrow> string + 'd) \<Rightarrow> string list
     \<Rightarrow> 'd batch_entry list \<times> string list \<Rightarrow> 'd batch_entry list \<times> string list" where
  "score_each analyze summarize [] st = st"
| "score_each analyze summarize (url # rest) (res, calls) =
     score_each analyze summarize rest
       (case bi_validate_url (Some url) of
          Inl e \<Rightarrow>
            (res @ [\<lparr> entry_url = url, entry_status = ''error'',
                       entry_data = None, entry_error = Some [] \<rparr>],
             calls)
        | Inr validated_url \<Rightarrow>
            (res @
               [case analyze (length calls) validated_url of
                  Returned (Some result) \<Rightarrow>
                    (case summarize result of
                       Inr lead_summary \<Rightarrow>
                         \<lparr> entry_url = url, entry_status = ''success'',
                           entry_data = Some lead_summary, entry_error = None \<rparr>
                     | Inl msg \<Rightarrow>
                         \<lparr> entry_url = url, entry_status = ''error'',
                           entry_data = None, entry_error = Some msg \<rparr>)
                | Returned None \<Rightarrow>
                    \<lparr> entry_url = url, entry_status = ''error'',
                      entry_data = None, entry_error = Some ''Analysis failed'' \<rparr>
                | Raised msg \<Rightarrow>
                    \<lparr> entry_url = url, entry_status = ''error'',
                      entry_data = None, entry_error = Some msg \<rparr>],
             calls @ [validated_url]))"

definition batch_lead_scoring ::
  "(nat \<Rightarrow> string \<Rightarrow> 'r outcome) \<Rightarrow> ('r \<Rightarrow> string + 'd) \<Rightarrow> batch_body option
     \<Rightarrow> (api_error + 'd batch_response) \<times> string list" where
  "batch_lead_scoring analyze summarize data =
     (case data of
        None \<Rightarrow> (Inl (APIError ''Request body is required'' 400), [])
      | Some body \<Rightarrow>
          (case urls body of
             None \<Rightarrow> (Inl (APIError ''URLs array is required'' 400), [])
           | Some us \<Rightarrow>
               if us = [] then (Inl (APIError ''URLs array is required'' 400), [])
               else if length us > 5
               then (Inl (APIError ''Maximum 5 URLs allowed per batch'' 400), [])
               else
                 (let (res, calls) = score_each analyze summarize us ([], []);
                      successful_analyses =
                        length (filter (\<lambda>r. entry_status r = ''success'') res)
                  in (Inr \<lparr> results = res, total_urls = length us,
                            successful = successful_analyses,
                            failed = length us - successful_analyses \<rparr>,
                      calls))))"

section \<open>Properties of the lead scoring\<close>

lemma determine_lead_quality_overall:
  "overall_score (determine_lead_quality ls) = overall_score ls"
  by (simp add: determine_lead_quality_def)

lemma determine_lead_quality_categories:
  "category_scores (determine_lead_quality ls) = category_scores ls"
  by (simp add: determine_lead_quality_def)

lemma determine_lead_quality_tier:
  "lead_quality (determine_lead_quality ls) =
     (if 80 \<le> overall_score ls then ''premium''
      else if 60 \<le> overall_score ls then ''qualified''
      else if 40 \<le> overall_score ls then ''potential''
      else ''nurture'')"
  by (simp add: determine_lead_quality_def)

lemma determine_lead_quality_lookup:
  "(conversion_probability (determine_lead_quality ls),
    deal_size_estimate (determine_lead_quality ls),
    sales_cycle_estimate (determine_lead_quality ls)) =
     (if lead_quality (determine_lead_quality ls) = ''premium''
        then (''high'', ''$10,000-$100,000+'', ''1-3 months'')
      else if lead_quality (determine_lead_quality ls) = ''qualified''
        then (''medium-high'', ''$5,000-$25,000'', ''2-6 months'')
      else if lead_quality (determine_lead_quality ls) = ''potential''
        then (''medium'', ''$2,000-$10,000'', ''3-12 months'')
      else (''low'', ''$500-$5,000'', ''6-18+ months''))"
  by (simp add: determine_lead_quality_def)

lemma score_lead_unfold:
  "score_lead cp si ta ba ci =
     determine_lead_quality
       (lead_scoring_init
          \<lparr> overall_score :=
              company_profile_scoring cp + social_intelligence_scoring si
                + technology_scoring ta + budget_scoring ba
                + contact_accessibility_scoring ci,
            category_scores :=
              [(''company_profile'', company_profile_scoring cp),
               (''social_intelligence'', social_intelligence_scoring si),
               (''technology'', technology_scoring ta),
               (''budget'', budget_scoring ba),
               (''contact_accessibility'', contact_accessibility_scoring ci)] \<rparr>)"
  unfolding score_lead_def Let_def
  by (simp add: lead_scoring_init_def algebra_simps)


lemma company_profile_scoring_range:
  "0 \<le> company_profile_scoring cp \<and> company_profile_scoring cp \<le> 20"
  by (simp add: company_profile_scoring_def Let_def split: option.split)

lemma social_intelligence_scoring_range:
  "0 \<le> social_engagement_score si \<Longrightarrow>
     0 \<le> social_intelligence_scoring si \<and> social_intelligence_scoring si \<le> 20"
  by (simp add: social_intelligence_scoring_def Let_def pos_imp_zdiv_nonneg_iff)

lemma technology_scoring_range:
  "0 \<le> tech_sophistication_score ta \<Longrightarrow>
     0 \<le> technology_scoring ta \<and> technology_scoring ta \<le> 20"
  by (simp add: technology_scoring_def Let_def pos_imp_zdiv_nonneg_iff)

lemma budget_scoring_range: "5 \<le> budget_scoring ba \<and> budget_scoring ba \<le> 25"
  by (simp add: budget_scoring_def Let_def)

lemma contact_accessibility_scoring_range:
  "0 \<le> sales_readiness_score ci \<Longrightarrow>
     0 \<le> contact_accessibility_scoring ci \<and> contact_accessibility_scoring ci \<le> 10"
  by (simp add: contact_accessibility_scoring_def pos_imp_zdiv_nonneg_iff)

lemma score_lead_overall:
  "overall_score (score_lead cp si ta ba ci) =
     company_profile_scoring cp + social_intelligence_scoring si + technology_scoring ta
       + budget_scoring ba + contact_accessibility_scoring ci"
  by (simp add: score_lead_unfold determine_lead_quality_overall)

lemma score_lead_categories:
  "category_scores (score_lead cp si ta ba ci) =
     [(''company_profile'', company_profile_scoring cp),
      (''social_intelligence'', social_intelligence_scoring si),
      (''technology'', technology_scoring ta),
      (''budget'', budget_scoring ba),
      (''contact_accessibility'', contact_accessibility_scoring ci)]"
  by (simp add: score_lead_unfold determine_lead_quality_categories)

text \<open>
  The whole function: after the scores and the tier are in place, the report helpers
  raise on every input, so \<open>calculate_lead_scoring\<close> never returns the dictionary
  \<open>score_lead\<close> describes, and \<open>analyze_business_intelligence\<close>, which calls it without a
  \<open>try\<close>, raises with it. With the profile \<open>extract_company_profile\<close> builds
  (\<open>business_size\<close> is always \<open>None\<close>) the exception is \<open>AttributeError\<close>.
\<close>

lemma calculate_lead_scoring_raises:
  "calculate_lead_scoring cp si ta ba ci =
     (if industry cp = None \<or> business_size cp = None then Inl AttributeError
      else Inl KeyError)"
  by (simp add: calculate_lead_scoring_def generate_detailed_action_plan_def
      identify_quick_wins_def generate_score_explanations_def get_industry_benchmarks_def
      generate_business_impact_explanations_def split: option.split)

text \<open>
  Claim C1 says that every run of \<open>calculate_lead_scoring\<close> maps the overall score to one
  of the four tiers. No run yields a tier, because none returns. For the profile of a
  SaaS company with 100+ employees, an engagement score of 55 with an advertising pixel,
  a technology score of 40, a high budget level and a readiness score of 30, the
  function computes the overall score 91 and the tier \<open>premium\<close> at lines 1193-1270 and
  then raises \<open>AttributeError\<close> at line 1769 (\<open>business_size\<close> is \<open>None\<close>, as the extractor
  leaves it); with a business size filled in it raises \<open>KeyError\<close> at line 1984.
\<close>

theorem lead_quality_tier_not_returned:
  "calculate_lead_scoring
        \<lparr>industry = Some ''saas'', business_size = None, location = None,
           employees = Some ''100+''\<rparr>
        \<lparr>social_engagement_score = 55, social_budget_indicators = [''facebook_ads'']\<rparr>
        \<lparr>tech_sophistication_score = 40, agency_opportunities = [''wordpress_optimization'']\<rparr>
        \<lparr>overall_budget_level = ''high''\<rparr>
        \<lparr>sales_readiness_score = 30\<rparr>
     = Inl AttributeError
   \<and> calculate_lead_scoring
        \<lparr>industry = Some ''saas'', business_size = Some ''medium'', location = None,
           employees = Some ''100+''\<rparr>
        \<lparr>social_engagement_score = 55, social_budget_indicators = [''facebook_ads'']\<rparr>
        \<lparr>tech_sophistication_score = 40, agency_opportunities = [''wordpress_optimization'']\<rparr>
        \<lparr>overall_budget_level = ''high''\<rparr>
        \<lparr>sales_readiness_score = 30\<rparr>
     = Inl KeyError
   \<and> overall_score
       (score_lead
        \<lparr>industry = Some ''saas'', business_size = None, location = None,
           employees = Some ''100+''\<rparr>
        \<lparr>social_engagement_score = 55, social_budget_indicators = [''facebook_ads'']\<rparr>
        \<lparr>tech_sophistication_score = 40, agency_opportunities = [''wordpress_optimization'']\<rparr>
        \<lparr>overall_budget_level = ''high''\<rparr>
        \<lparr>sales_readiness_score = 30\<rparr>) = 91
   \<and> lead_quality
       (score_lead
        \<lparr>industry = Some ''saas'', business_size = None, location = None,
           employees = Some ''100+''\<rparr>
        \<lparr>social_engagement_score = 55, social_budget_indicators = [''facebook_ads'']\<rparr>
        \<lparr>tech_sophistication_score = 40, agency_opportunities = [''wordpress_optimization'']\<rparr>
        \<lparr>overall_budget_level = ''high''\<rparr>
        \<lparr>sales_readiness_score = 30\<rparr>) = ''premium''"
proof (intro conjI)
  show "calculate_lead_scoring
        \<lparr>industry = Some ''saas'', business_size = None, location = None,
           employees = Some ''100+''\<rparr>
        \<lparr>social_engagement_score = 55, social_budget_indicators = [''facebook_ads'']\<rparr>
        \<lparr>tech_sophistication_score = 40, agency_opportunities = [''wordpress_optimization'']\<rparr>
        \<lparr>overall_budget_level = ''high''\<rparr>
        \<lparr>sales_readiness_score = 30\<rparr>
     = Inl AttributeError"
    by (simp add: calculate_lead_scoring_raises)
  show "calculate_lead_scoring
        \<lparr>industry = Some ''saas'', business_size = Some ''medium'', location = None,
           employees = Some ''100+''\<rparr>
        \<lparr>social_engagement_score = 55, social_budget_indicators = [''facebook_ads'']\<rparr>
        \<lparr>tech_sophistication_score = 40, agency_opportunities = [''wordpress_optimization'']\<rparr>
        \<lparr>overall_budget_level = ''high''\<rparr>
        \<lparr>sales_readiness_score = 30\<rparr>
     = Inl KeyError"
    by (simp add: calculate_lead_scoring_raises)
  show o: "overall_score
       (score_lead
        \<lparr>industry = Some ''saas'', business_size = None, location = None,
           employees = Some ''100+''\<rparr>
        \<lparr>social_engagement_score = 55, social_budget_indicators = [''facebook_ads'']\<rparr>
        \<lparr>tech_sophistication_score = 40, agency_opportunities = [''wordpress_optimization'']\<rparr>
        \<lparr>overall_budget_level = ''high''\<rparr>
        \<lparr>sales_readiness_score = 30\<rparr>) = 91"
    by (simp add: score_lead_overall company_profile_scoring_def
        social_intelligence_scoring_def technology_scoring_def budget_scoring_def
        contact_accessibility_scoring_def)
  show "lead_quality
       (score_lead
        \<lparr>industry = Some ''saas'', business_size = None, location = None,
           employees = Some ''100+''\<rparr>
        \<lparr>social_engagement_score = 55, social_budget_indicators = [''facebook_ads'']\<rparr>
        \<lparr>tech_sophistication_score = 40, agency_opportunities = [''wordpress_optimization'']\<rparr>
        \<lparr>overall_budget_level = ''high''\<rparr>
        \<lparr>sales_readiness_score = 30\<rparr>) = ''premium''"
    using o
    by (simp only: score_lead_unfold determine_lead_quality_tier
        determine_lead_quality_overall) simp
qed

text \<open>
  Claim C2 says that the five category scores \<open>calculate_lead_scoring\<close> produces lie
  between 0 and their caps and add up to the overall score. It produces none. For a
  healthcare profile with 25 employees, an engagement score of 25 without advertising,
  a technology score of 11 with one agency opportunity, a medium budget level and a
  readiness score of 9, the function has the category scores 9, 8, 10, 15 and 4 and
  their sum 46 in place at line 1244, and then raises: \<open>AttributeError\<close> at line 1769
  with the profile as the extractor builds it, \<open>KeyError\<close> at line 1984 when a business
  size is filled in.
\<close>

theorem category_scores_not_returned:
  "calculate_lead_scoring
        \<lparr>industry = Some ''healthcare'', business_size = None, location = None,
           employees = Some ''25''\<rparr>
        \<lparr>social_engagement_score = 25, social_budget_indicators = []\<rparr>
        \<lparr>tech_sophistication_score = 11,
           agency_opportunities = [''marketing_automation_implementation'']\<rparr>
        \<lparr>overall_budget_level = ''medium''\<rparr>
        \<lparr>sales_readiness_score = 9\<rparr>
     = Inl AttributeError
   \<and> calculate_lead_scoring
        \<lparr>industry = Some ''healthcare'', business_size = Some ''small'', location = None,
           employees = Some ''25''\<rparr>
        \<lparr>social_engagement_score = 25, social_budget_indicators = []\<rparr>
        \<lparr>tech_sophistication_score = 11,
           agency_opportunities = [''marketing_automation_implementation'']\<rparr>
        \<lparr>overall_budget_level = ''medium''\<rparr>
        \<lparr>sales_readiness_score = 9\<rparr>
     = Inl KeyError
   \<and> category_scores
       (score_lead
        \<lparr>industry = Some ''healthcare'', business_size = None, location = None,
           employees = Some ''25''\<rparr>
        \<lparr>social_engagement_score = 25, social_budget_indicators = []\<rparr>
        \<lparr>tech_sophistication_score = 11,
           agency_opportunities = [''marketing_automation_implementation'']\<rparr>
        \<lparr>overall_budget_level = ''medium''\<rparr>
        \<lparr>sales_readiness_score = 9\<rparr>)
     = [(''company_profile'', 9), (''social_intelligence'', 8), (''technology'', 10),
        (''budget'', 15), (''contact_accessibility'', 4)]
   \<and> overall_score
       (score_lead
        \<lparr>industry = Some ''healthcare'', business_size = None, location = None,
           employees = Some ''25''\<rparr>
        \<lparr>social_engagement_score = 25, social_budget_indicators = []\<rparr>
        \<lparr>tech_sophistication_score = 11,
           agency_opportunities = [''marketing_automation_implementation'']\<rparr>
        \<lparr>overall_budget_level = ''medium''\<rparr>
        \<lparr>sales_readiness_score = 9\<rparr>) = 46"
proof (intro conjI)
  show "calculate_lead_scoring
        \<lparr>industry = Some ''healthcare'', business_size = None, location = None,
           employees = Some ''25''\<rparr>
        \<lparr>social_engagement_score = 25, social_budget_indicators = []\<rparr>
        \<lparr>tech_sophistication_score = 11,
           agency_opportunities = [''marketing_automation_implementation'']\<rparr>
        \<lparr>overall_budget_level = ''medium''\<rparr>
        \<lparr>sales_readiness_score = 9\<rparr>
     = Inl AttributeError"
    by (simp add: calculate_lead_scoring_raises)
  show "calculate_lead_scoring
        \<lparr>industry = Some ''healthcare'', business_size = Some ''small'', location = None,
           employees = Some ''25''\<rparr>
        \<lparr>social_engagement_score = 25, social_budget_indicators = []\<rparr>
        \<lparr>tech_sophistication_score = 11,
           agency_opportunities = [''marketing_automation_implementation'']\<rparr>
        \<lparr>overall_budget_level = ''medium''\<rparr>
        \<lparr>sales_readiness_score = 9\<rparr>
     = Inl KeyError"
    by (simp add: calculate_lead_scoring_raises)
  show "category_scores
       (score_lead
        \<lparr>industry = Some ''healthcare'', business_size = None, location = None,
           employees = Some ''25''\<rparr>
        \<lparr>social_engagement_score = 25, social_budget_indicators = []\<rparr>
        \<lparr>tech_sophistication_score = 11,
           agency_opportunities = [''marketing_automation_implementation'']\<rparr>
        \<lparr>overall_budget_level = ''medium''\<rparr>
        \<lparr>sales_readiness_score = 9\<rparr>)
     = [(''company_profile'', 9), (''social_intelligence'', 8), (''technology'', 10),
        (''budget'', 15), (''contact_accessibility'', 4)]"
    by (simp add: score_lead_categories company_profile_scoring_def
        social_intelligence_scoring_def technology_scoring_def budget_scoring_def
        contact_accessibility_scoring_def)
  show "overall_score
       (score_lead
        \<lparr>industry = Some ''healthcare'', business_size = None, location = None,
           employees = Some ''25''\<rparr>
        \<lparr>social_engagement_score = 25, social_budget_indicators = []\<rparr>
        \<lparr>tech_sophistication_score = 11,
           agency_opportunities = [''marketing_automation_implementation'']\<rparr>
        \<lparr>overall_budget_level = ''medium''\<rparr>
        \<lparr>sales_readiness_score = 9\<rparr>) = 46"
    by (simp add: score_lead_overall company_profile_scoring_def
        social_intelligence_scoring_def technology_scoring_def budget_scoring_def
        contact_accessibility_scoring_def)
qed

text \<open>
  Claim C10 says that the overall lead score is at least 5 even for a document with no
  detected signal. For that document (no industry, size, location or employee count,
  all detector scores 0, budget level \<open>low\<close>) the function computes the budget score 5
  and the overall score 5 and then raises \<open>AttributeError\<close> at line 1436, where
  \<open>company_profile.get('industry', '')\<close> is \<open>None\<close>: no lead score comes back.
\<close>

theorem no_signal_score_not_returned:
  "calculate_lead_scoring
        \<lparr>industry = None, business_size = None, location = None, employees = None\<rparr>
        \<lparr>social_engagement_score = 0, social_budget_indicators = []\<rparr>
        \<lparr>tech_sophistication_score = 0, agency_opportunities = []\<rparr>
        \<lparr>overall_budget_level = ''low''\<rparr>
        \<lparr>sales_readiness_score = 0\<rparr>
     = Inl AttributeError
   \<and> map_of (category_scores
       (score_lead
        \<lparr>industry = None, business_size = None, location = None, employees = None\<rparr>
        \<lparr>social_engagement_score = 0, social_budget_indicators = []\<rparr>
        \<lparr>tech_sophistication_score = 0, agency_opportunities = []\<rparr>
        \<lparr>overall_budget_level = ''low''\<rparr>
        \<lparr>sales_readiness_score = 0\<rparr>)) ''budget'' = Some 5
   \<and> overall_score
       (score_lead
        \<lparr>industry = None, business_size = None, location = None, employees = None\<rparr>
        \<lparr>social_engagement_score = 0, social_budget_indicators = []\<rparr>
        \<lparr>tech_sophistication_score = 0, agency_opportunities = []\<rparr>
        \<lparr>overall_budget_level = ''low''\<rparr>
        \<lparr>sales_readiness_score = 0\<rparr>) = 5"
proof (intro conjI)
  show "calculate_lead_scoring
        \<lparr>industry = None, business_size = None, location = None, employees = None\<rparr>
        \<lparr>social_engagement_score = 0, social_budget_indicators = []\<rparr>
        \<lparr>tech_sophistication_score = 0, agency_opportunities = []\<rparr>
        \<lparr>overall_budget_level = ''low''\<rparr>
        \<lparr>sales_readiness_score = 0\<rparr>
     = Inl AttributeError"
    by (simp add: calculate_lead_scoring_raises)
  show "map_of (category_scores
       (score_lead
        \<lparr>industry = None, business_size = None, location = None, employees = None\<rparr>
        \<lparr>social_engagement_score = 0, social_budget_indicators = []\<rparr>
        \<lparr>tech_sophistication_score = 0, agency_opportunities = []\<rparr>
        \<lparr>overall_budget_level = ''low''\<rparr>
        \<lparr>sales_readiness_score = 0\<rparr>)) ''budget'' = Some 5"
    by (simp add: score_lead_categories budget_scoring_def)
  show "overall_score
       (score_lead
        \<lparr>industry = None, business_size = None, location = None, employees = None\<rparr>
        \<lparr>social_engagement_score = 0, social_budget_indicators = []\<rparr>
        \<lparr>tech_sophistication_score = 0, agency_opportunities = []\<rparr>
        \<lparr>overall_budget_level = ''low''\<rparr>
        \<lparr>sales_readiness_score = 0\<rparr>) = 5"
    by (simp add: score_lead_overall company_profile_scoring_def
        social_intelligence_scoring_def technology_scoring_def budget_scoring_def
        contact_accessibility_scoring_def)
qed

section \<open>Properties of the SEO score\<close>

text \<open>
  \<open>if c: score += a\<close> adds \<open>a\<close> or nothing, so the score is a sum of one term per
  branch. The two rewrite rules bring the definition into that form.
\<close>

lemma if_add_weight: "(if c then (x::int) + a else x) = x + (if c then a else 0)"
  by simp

lemma if_add_both: "(if c then (x::int) + a else x + b) = x + (if c then a else b)"
  by simp

lemma seo_score_sum:
  "calculate_seo_score sa =
     min ((if truthy (title (seo_meta_tags sa))
          then 10 + (if 30 \<le> title_length (seo_meta_tags sa)
                        \<and> title_length (seo_meta_tags sa) \<le> 60 then 5 else 0)
          else 0)
       + (if truthy (description (seo_meta_tags sa))
          then 5 + (if 120 \<le> description_length (seo_meta_tags sa)
                       \<and> description_length (seo_meta_tags sa) \<le> 160 then 5 else 0)
          else 0)
       + (if h1 (seo_header_counts sa) = 1 then 10 else 0)
       + (if 3 \<le> header_total (seo_header_counts sa) then 5 else 0)
       + (if 80 \<le> alt_text_percentage (seo_images sa) then 10
          else if 50 \<le> alt_text_percentage (seo_images sa) then 5 else 0)
       + (if 0 < lazy_loading (seo_images sa) then 5 else 0)
       + (if json_ld_schemas (seo_schema_markup sa) \<noteq> []
             \<or> microdata (seo_schema_markup sa) \<noteq> [] then 15 else 0)
       + (if nap_phone (seo_local_seo sa) \<and> nap_address (seo_local_seo sa) then 5 else 0)
       + (if local_schema (seo_local_seo sa) then 5 else 0)
       + (if seo_friendly (seo_url_structure sa) then 5 else 0)
       + (if breadcrumbs (seo_url_structure sa) then 5 else 0)
       + (if minification_indicators (seo_page_speed_indicators sa) \<noteq> [] then 5 else 0)
       + (if cdn_usage (seo_page_speed_indicators sa) then 5 else 0)) 100"
  unfolding calculate_seo_score_def
  by (simp only: Let_def if_add_weight if_add_both add.assoc add_0 cong: if_cong)

text \<open>
  The score as the sum of its thirteen terms, with its range; both the weights and the
  boundary case below rest on it.
\<close>

lemma seo_score_terms:
  "calculate_seo_score sa =
       (if truthy (title (seo_meta_tags sa))
          then 10 + (if 30 \<le> title_length (seo_meta_tags sa)
                        \<and> title_length (seo_meta_tags sa) \<le> 60 then 5 else 0)
          else 0)
       + (if truthy (description (seo_meta_tags sa))
          then 5 + (if 120 \<le> description_length (seo_meta_tags sa)
                       \<and> description_length (seo_meta_tags sa) \<le> 160 then 5 else 0)
          else 0)
       + (if h1 (seo_header_counts sa) = 1 then 10 else 0)
       + (if 3 \<le> header_total (seo_header_counts sa) then 5 else 0)
       + (if 80 \<le> alt_text_percentage (seo_images sa) then 10
          else if 50 \<le> alt_text_percentage (seo_images sa) then 5 else 0)
       + (if 0 < lazy_loading (seo_images sa) then 5 else 0)
       + (if json_ld_schemas (seo_schema_markup sa) \<noteq> []
             \<or> microdata (seo_schema_markup sa) \<noteq> [] then 15 else 0)
       + (if nap_phone (seo_local_seo sa) \<and> nap_address (seo_local_seo sa) then 5 else 0)
       + (if local_schema (seo_local_seo sa) then 5 else 0)
       + (if seo_friendly (seo_url_structure sa) then 5 else 0)
       + (if breadcrumbs (seo_url_structure sa) then 5 else 0)
       + (if minification_indicators (seo_page_speed_indicators sa) \<noteq> [] then 5 else 0)
       + (if cdn_usage (seo_page_speed_indicators sa) then 5 else 0)
   \<and> 0 \<le> calculate_seo_score sa \<and> calculate_seo_score sa \<le> 100
   \<and> (10 + 5) + (5 + 5) + (10 + 5) + (10 + 5) + 15 + (5 + 5) + (5 + 5) + (5 + 5) = (100::int)"
proof -
  define t1 :: int where "t1 = (if truthy (title (seo_meta_tags sa))
          then 10 + (if 30 \<le> title_length (seo_meta_tags sa)
                        \<and> title_length (seo_meta_tags sa) \<le> 60 then 5 else 0)
          else 0)"
  define t2 :: int where "t2 = (if truthy (description (seo_meta_tags sa))
          then 5 + (if 120 \<le> description_length (seo_meta_tags sa)
                       \<and> description_length (seo_meta_tags sa) \<le> 160 then 5 else 0)
          else 0)"
  define t3 :: int where "t3 = (if h1 (seo_header_counts sa) = 1 then 10 else 0)"
  define t4 :: int where "t4 = (if 3 \<le> header_total (seo_header_counts sa) then 5 else 0)"
  define t5 :: int where "t5 = (if 80 \<le> alt_text_percentage (seo_images sa) then 10
          else if 50 \<le> alt_text_percentage (seo_images sa) then 5 else 0)"
  define t6 :: int where "t6 = (if 0 < lazy_loading (seo_images sa) then 5 else 0)"
  define t7 :: int where "t7 = (if json_ld_schemas (seo_schema_markup sa) \<noteq> []
             \<or> microdata (seo_schema_markup sa) \<noteq> [] then 15 else 0)"
  define t8 :: int where
    "t8 = (if nap_phone (seo_local_seo sa) \<and> nap_address (seo_local_seo sa) then 5 else 0)"
  define t9 :: int where "t9 = (if local_schema (seo_local_seo sa) then 5 else 0)"
  define t10 :: int where "t10 = (if seo_friendly (seo_url_structure sa) then 5 else 0)"
  define t11 :: int where "t11 = (if breadcrumbs (seo_url_structure sa) then 5 else 0)"
  define t12 :: int where
    "t12 = (if minification_indicators (seo_page_speed_indicators sa) \<noteq> [] then 5 else 0)"
  define t13 :: int where "t13 = (if cdn_usage (seo_page_speed_indicators sa) then 5 else 0)"
  have b1: "0 \<le> t1 \<and> t1 \<le> 15" by (simp add: t1_def)
  have b2: "0 \<le> t2 \<and> t2 \<le> 10" by (simp add: t2_def)
  have b3: "0 \<le> t3 \<and> t3 \<le> 10" by (simp add: t3_def)
  have b4: "0 \<le> t4 \<and> t4 \<le> 5" by (simp add: t4_def)
  have b5: "0 \<le> t5 \<and> t5 \<le> 10" by (simp add: t5_def)
  have b6: "0 \<le> t6 \<and> t6 \<le> 5" by (simp add: t6_def)
  have b7: "0 \<le> t7 \<and> t7 \<le> 15" by (simp add: t7_def)
  have b8: "0 \<le> t8 \<and> t8 \<le> 5" by (simp add: t8_def)
  have b9: "0 \<le> t9 \<and> t9 \<le> 5" by (simp add: t9_def)
  have b10: "0 \<le> t10 \<and> t10 \<le> 5" by (simp add: t10_def)
  have b11: "0 \<le> t11 \<and> t11 \<le> 5" by (simp add: t11_def)
  have b12: "0 \<le> t12 \<and> t12 \<le> 5" by (simp add: t12_def)
  have b13: "0 \<le> t13 \<and> t13 \<le> 5" by (simp add: t13_def)
  have m: "calculate_seo_score sa
             = min (t1 + t2 + t3 + t4 + t5 + t6 + t7 + t8 + t9 + t10 + t11 + t12 + t13) 100"
    unfolding t1_def t2_def t3_def t4_def t5_def t6_def t7_def t8_def t9_def t10_def
      t11_def t12_def t13_def
    by (rule seo_score_sum)
  have e: "calculate_seo_score sa
             = t1 + t2 + t3 + t4 + t5 + t6 + t7 + t8 + t9 + t10 + t11 + t12 + t13"
    using m b1 b2 b3 b4 b5 b6 b7 b8 b9 b10 b11 b12 b13 by linarith
  have r: "0 \<le> calculate_seo_score sa \<and> calculate_seo_score sa \<le> 100"
    using e b1 b2 b3 b4 b5 b6 b7 b8 b9 b10 b11 b12 b13 by linarith
  have total: "(10 + 5) + (5 + 5) + (10 + 5) + (10 + 5) + 15 + (5 + 5) + (5 + 5) + (5 + 5)
                 = (100::int)"
    by simp
  show ?thesis
    using e r total
    unfolding t1_def t2_def t3_def t4_def t5_def t6_def t7_def t8_def t9_def t10_def
      t11_def t12_def t13_def
    by (intro conjI) (rule e [unfolded t1_def t2_def t3_def t4_def t5_def t6_def t7_def
      t8_def t9_def t10_def t11_def t12_def t13_def], simp_all only: simp_thms)
qed

text \<open>
  Claim C4. \<open>calculate_seo_score\<close> is the sum of the fixed weights: title present 10,
  plus 5 when its length is in 30..60; description present 5, plus 5 when its length is
  in 120..160; exactly one H1 10; at least three header tags 5; alt-text coverage at
  least 80 gives 10, else at least 50 gives 5; any lazy-loaded image 5; JSON-LD or
  microdata 15; NAP phone and address 5; LocalBusiness schema 5; SEO-friendly URL 5;
  breadcrumbs 5; minified assets 5; CDN usage 5. The weights add up to 100, so the score
  lies between 0 and 100 and the final \<open>min\<close> never cuts anything off.
\<close>

theorem seo_score_weights:
  "calculate_seo_score sa =
       (if truthy (title (seo_meta_tags sa))
          then 10 + (if 30 \<le> title_length (seo_meta_tags sa)
                        \<and> title_length (seo_meta_tags sa) \<le> 60 then 5 else 0)
          else 0)
       + (if truthy (description (seo_meta_tags sa))
          then 5 + (if 120 \<le> description_length (seo_meta_tags sa)
                       \<and> description_length (seo_meta_tags sa) \<le> 160 then 5 else 0)
          else 0)
       + (if h1 (seo_header_counts sa) = 1 then 10 else 0)
       + (if 3 \<le> header_total (seo_header_counts sa) then 5 else 0)
       + (if 80 \<le> alt_text_percentage (seo_images sa) then 10
          else if 50 \<le> alt_text_percentage (seo_images sa) then 5 else 0)
       + (if 0 < lazy_loading (seo_images sa) then 5 else 0)
       + (if json_ld_schemas (seo_schema_markup sa) \<noteq> []
             \<or> microdata (seo_schema_markup sa) \<noteq> [] then 15 else 0)
       + (if nap_phone (seo_local_seo sa) \<and> nap_address (seo_local_seo sa) then 5 else 0)
       + (if local_schema (seo_local_seo sa) then 5 else 0)
       + (if seo_friendly (seo_url_structure sa) then 5 else 0)
       + (if breadcrumbs (seo_url_structure sa) then 5 else 0)
       + (if minification_indicators (seo_page_speed_indicators sa) \<noteq> [] then 5 else 0)
       + (if cdn_usage (seo_page_speed_indicators sa) then 5 else 0)
   \<and> 0 \<le> calculate_seo_score sa \<and> calculate_seo_score sa \<le> 100
   \<and> (10 + 5) + (5 + 5) + (10 + 5) + (10 + 5) + 15 + (5 + 5) + (5 + 5) + (5 + 5) = (100::int)"
  by (rule seo_score_terms)

theorem seo_score_weights_witness:
  "calculate_seo_score
     (\<lparr> seo_meta_tags =
         \<lparr> title = Some ''Example Company: Quality Widgets Made To Last'',
           title_length = 45,
           description = Some ''Example Company designs and sells quality widgets for homes and offices, with free delivery, friendly support and a generous returns policy.'',
           description_length = 140,
           canonical = Some ''https://example.com/'' \<rparr>,
       seo_header_counts = \<lparr> h1 = 1, h2 = 2, h3 = 0, h4 = 0, h5 = 0, h6 = 0 \<rparr>,
       seo_images = \<lparr> alt_text_percentage = 100, lazy_loading = 1 \<rparr>,
       seo_schema_markup =
         \<lparr> json_ld_schemas = [''Organization''], microdata = [] \<rparr>,
       seo_local_seo =
         \<lparr> nap_phone = True, nap_address = True, local_schema = True,
           google_maps_embed = True \<rparr>,
       seo_url_structure = \<lparr> seo_friendly = True, breadcrumbs = True \<rparr>,
       seo_page_speed_indicators =
         \<lparr> minification_indicators = [''js''], cdn_usage = True \<rparr> \<rparr>) = 100"
  using seo_score_weights
    [of "\<lparr> seo_meta_tags =
         \<lparr> title = Some ''Example Company: Quality Widgets Made To Last'',
           title_length = 45,
           description = Some ''Example Company designs and sells quality widgets for homes and offices, with free delivery, friendly support and a generous returns policy.'',
           description_length = 140,
           canonical = Some ''https://example.com/'' \<rparr>,
       seo_header_counts = \<lparr> h1 = 1, h2 = 2, h3 = 0, h4 = 0, h5 = 0, h6 = 0 \<rparr>,
       seo_images = \<lparr> alt_text_percentage = 100, lazy_loading = 1 \<rparr>,
       seo_schema_markup =
         \<lparr> json_ld_schemas = [''Organization''], microdata = [] \<rparr>,
       seo_local_seo =
         \<lparr> nap_phone = True, nap_address = True, local_schema = True,
           google_maps_embed = True \<rparr>,
       seo_url_structure = \<lparr> seo_friendly = True, breadcrumbs = True \<rparr>,
       seo_page_speed_indicators =
         \<lparr> minification_indicators = [''js''], cdn_usage = True \<rparr> \<rparr>"]
  by (simp add: header_total_def)

text \<open>
  Claim C5 as stated fails. The page at \<open>https://example.com/\<close> whose head holds a
  45-character title, a 140-character meta description, a canonical link and one JSON-LD
  block of type Organization, and whose body is one \<open>h1\<close>, one image with alt text and a
  Google Maps iframe, has every feature the claim lists. Its analysis is the record
  below (one header tag, no lazy-loaded image, no phone number or address word in the
  text, no LocalBusiness schema, no breadcrumbs, no external script), and its score is
  65, not close to 100.
\<close>

theorem seo_boundary_document_counterexample:
  "title (seo_meta_tags
     (\<lparr> seo_meta_tags =
         \<lparr> title = Some ''Example Company: Quality Widgets Made To Last'',
           title_length = 45,
           description = Some ''Example Company designs and sells quality widgets for homes and offices, with free delivery, friendly support and a generous returns policy.'',
           description_length = 140,
           canonical = Some ''https://example.com/'' \<rparr>,
       seo_header_counts = \<lparr> h1 = 1, h2 = 0, h3 = 0, h4 = 0, h5 = 0, h6 = 0 \<rparr>,
       seo_images = \<lparr> alt_text_percentage = 100, lazy_loading = 0 \<rparr>,
       seo_schema_markup =
         \<lparr> json_ld_schemas = [''Organization''], microdata = [] \<rparr>,
       seo_local_seo =
         \<lparr> nap_phone = False, nap_address = False, local_schema = False,
           google_maps_embed = True \<rparr>,
       seo_url_structure = \<lparr> seo_friendly = True, breadcrumbs = False \<rparr>,
       seo_page_speed_indicators =
         \<lparr> minification_indicators = [], cdn_usage = False \<rparr> \<rparr>)) = Some ''Example Company: Quality Widgets Made To Last''
   \<and> length ''Example Company: Quality Widgets Made To Last'' = 45
   \<and> title_length (seo_meta_tags
     (\<lparr> seo_meta_tags =
         \<lparr> title = Some ''Example Company: Quality Widgets Made To Last'',
           title_length = 45,
           description = Some ''Example Company designs and sells quality widgets for homes and offices, with free delivery, friendly support and a generous returns policy.'',
           description_length = 140,
           canonical = Some ''https://example.com/'' \<rparr>,
       seo_header_counts = \<lparr> h1 = 1, h2 = 0, h3 = 0, h4 = 0, h5 = 0, h6 = 0 \<rparr>,
       seo_images = \<lparr> alt_text_percentage = 100, lazy_loading = 0 \<rparr>,
       seo_schema_markup =
         \<lparr> json_ld_schemas = [''Organization''], microdata = [] \<rparr>,
       seo_local_seo =
         \<lparr> nap_phone = False, nap_address = False, local_schema = False,
           google_maps_embed = True \<rparr>,
       seo_url_structure = \<lparr> seo_friendly = True, breadcrumbs = False \<rparr>,
       seo_page_speed_indicators =
         \<lparr> minification_indicators = [], cdn_usage = False \<rparr> \<rparr>)) = 45
   \<and> description (seo_meta_tags
     (\<lparr> seo_meta_tags =
         \<lparr> title = Some ''Example Company: Quality Widgets Made To Last'',
           title_length = 45,
           description = Some ''Example Company designs and sells quality widgets for homes and offices, with free delivery, friendly support and a generous returns policy.'',
           description_length = 140,
           canonical = Some ''https://example.com/'' \<rparr>,
       seo_header_counts = \<lparr> h1 = 1, h2 = 0, h3 = 0, h4 = 0, h5 = 0, h6 = 0 \<rparr>,
       seo_images = \<lparr> alt_text_percentage = 100, lazy_loading = 0 \<rparr>,
       seo_schema_markup =
         \<lparr> json_ld_schemas = [''Organization''], microdata = [] \<rparr>,
       seo_local_seo =
         \<lparr> nap_phone = False, nap_address = False, local_schema = False,
           google_maps_embed = True \<rparr>,
       seo_url_structure = \<lparr> seo_friendly = True, breadcrumbs = False \<rparr>,
       seo_page_speed_indicators =
         \<lparr> minification_indicators = [], cdn_usage = False \<rparr> \<rparr>)) = Some ''Example Company designs and sells quality widgets for homes and offices, with free delivery, friendly support and a generous returns policy.''
   \<and> length ''Example Company designs and sells quality widgets for homes and offices, with free delivery, friendly support and a generous returns policy.'' = 140
   \<and> description_length (seo_meta_tags
     (\<lparr> seo_meta_tags =
         \<lparr> title = Some ''Example Company: Quality Widgets Made To Last'',
           title_length = 45,
           description = Some ''Example Company designs and sells quality widgets for homes and offices, with free delivery, friendly support and a generous returns policy.'',
           description_length = 140,
           canonical = Some ''https://example.com/'' \<rparr>,
       seo_header_counts = \<lparr> h1 = 1, h2 = 0, h3 = 0, h4 = 0, h5 = 0, h6 = 0 \<rparr>,
       seo_images = \<lparr> alt_text_percentage = 100, lazy_loading = 0 \<rparr>,
       seo_schema_markup =
         \<lparr> json_ld_schemas = [''Organization''], microdata = [] \<rparr>,
       seo_local_seo =
         \<lparr> nap_phone = False, nap_address = False, local_schema = False,
           google_maps_embed = True \<rparr>,
       seo_url_structure = \<lparr> seo_friendly = True, breadcrumbs = False \<rparr>,
       seo_page_speed_indicators =
         \<lparr> minification_indicators = [], cdn_usage = False \<rparr> \<rparr>)) = 140
   \<and> h1 (seo_header_counts
     (\<lparr> seo_meta_tags =
         \<lparr> title = Some ''Example Company: Quality Widgets Made To Last'',
           title_length = 45,
           description = Some ''Example Company designs and sells quality widgets for homes and offices, with free delivery, friendly support and a generous returns policy.'',
           description_length = 140,
           canonical = Some ''https://example.com/'' \<rparr>,
       seo_header_counts = \<lparr> h1 = 1, h2 = 0, h3 = 0, h4 = 0, h5 = 0, h6 = 0 \<rparr>,
       seo_images = \<lparr> alt_text_percentage = 100, lazy_loading = 0 \<rparr>,
       seo_schema_markup =
         \<lparr> json_ld_schemas = [''Organization''], microdata = [] \<rparr>,
       seo_local_seo =
         \<lparr> nap_phone = False, nap_address = False, local_schema = False,
           google_maps_embed = True \<rparr>,
       seo_url_structure = \<lparr> seo_friendly = True, breadcrumbs = False \<rparr>,
       seo_page_speed_indicators =
         \<lparr> minification_indicators = [], cdn_usage = False \<rparr> \<rparr>)) = 1
   \<and> alt_text_percentage (seo_images
     (\<lparr> seo_meta_tags =
         \<lparr> title = Some ''Example Company: Quality Widgets Made To Last'',
           title_length = 45,
           description = Some ''Example Company designs and sells quality widgets for homes and offices, with free delivery, friendly support and a generous returns policy.'',
           description_length = 140,
           canonical = Some ''https://example.com/'' \<rparr>,
       seo_header_counts = \<lparr> h1 = 1, h2 = 0, h3 = 0, h4 = 0, h5 = 0, h6 = 0 \<rparr>,
       seo_images = \<lparr> alt_text_percentage = 100, lazy_loading = 0 \<rparr>,
       seo_schema_markup =
         \<lparr> json_ld_schemas = [''Organization''], microdata = [] \<rparr>,
       seo_local_seo =
         \<lparr> nap_phone = False, nap_address = False, local_schema = False,
           google_maps_embed = True \<rparr>,
       seo_url_structure = \<lparr> seo_friendly = True, breadcrumbs = False \<rparr>,
       seo_page_speed_indicators =
         \<lparr> minification_indicators = [], cdn_usage = False \<rparr> \<rparr>)) = 100
   \<and> length (json_ld_schemas (seo_schema_markup
     (\<lparr> seo_meta_tags =
         \<lparr> title = Some ''Example Company: Quality Widgets Made To Last'',
           title_length = 45,
           description = Some ''Example Company designs and sells quality widgets for homes and offices, with free delivery, friendly support and a generous returns policy.'',
           description_length = 140,
           canonical = Some ''https://example.com/'' \<rparr>,
       seo_header_counts = \<lparr> h1 = 1, h2 = 0, h3 = 0, h4 = 0, h5 = 0, h6 = 0 \<rparr>,
       seo_images = \<lparr> alt_text_percentage = 100, lazy_loading = 0 \<rparr>,
       seo_schema_markup =
         \<lparr> json_ld_schemas = [''Organization''], microdata = [] \<rparr>,
       seo_local_seo =
         \<lparr> nap_phone = False, nap_address = False, local_schema = False,
           google_maps_embed = True \<rparr>,
       seo_url_structure = \<lparr> seo_friendly = True, breadcrumbs = False \<rparr>,
       seo_page_speed_indicators =
         \<lparr> minification_indicators = [], cdn_usage = False \<rparr> \<rparr>))) = 1
   \<and> canonical (seo_meta_tags
     (\<lparr> seo_meta_tags =
         \<lparr> title = Some ''Example Company: Quality Widgets Made To Last'',
           title_length = 45,
           description = Some ''Example Company designs and sells quality widgets for homes and offices, with free delivery, friendly support and a generous returns policy.'',
           description_length = 140,
           canonical = Some ''https://example.com/'' \<rparr>,
       seo_header_counts = \<lparr> h1 = 1, h2 = 0, h3 = 0, h4 = 0, h5 = 0, h6 = 0 \<rparr>,
       seo_images = \<lparr> alt_text_percentage = 100, lazy_loading = 0 \<rparr>,
       seo_schema_markup =
         \<lparr> json_ld_schemas = [''Organization''], microdata = [] \<rparr>,
       seo_local_seo =
         \<lparr> nap_phone = False, nap_address = False, local_schema = False,
           google_maps_embed = True \<rparr>,
       seo_url_structure = \<lparr> seo_friendly = True, breadcrumbs = False \<rparr>,
       seo_page_speed_indicators =
         \<lparr> minification_indicators = [], cdn_usage = False \<rparr> \<rparr>)) \<noteq> None
   \<and> google_maps_embed (seo_local_seo
     (\<lparr> seo_meta_tags =
         \<lparr> title = Some ''Example Company: Quality Widgets Made To Last'',
           title_length = 45,
           description = Some ''Example Company designs and sells quality widgets for homes and offices, with free delivery, friendly support and a generous returns policy.'',
           description_length = 140,
           canonical = Some ''https://example.com/'' \<rparr>,
       seo_header_counts = \<lparr> h1 = 1, h2 = 0, h3 = 0, h4 = 0, h5 = 0, h6 = 0 \<rparr>,
       seo_images = \<lparr> alt_text_percentage = 100, lazy_loading = 0 \<rparr>,
       seo_schema_markup =
         \<lparr> json_ld_schemas = [''Organization''], microdata = [] \<rparr>,
       seo_local_seo =
         \<lparr> nap_phone = False, nap_address = False, local_schema = False,
           google_maps_embed = True \<rparr>,
       seo_url_structure = \<lparr> seo_friendly = True, breadcrumbs = False \<rparr>,
       seo_page_speed_indicators =
         \<lparr> minification_indicators = [], cdn_usage = False \<rparr> \<rparr>))
   \<and> calculate_seo_score
     (\<lparr> seo_meta_tags =
         \<lparr> title = Some ''Example Company: Quality Widgets Made To Last'',
           title_length = 45,
           description = Some ''Example Company designs and sells quality widgets for homes and offices, with free delivery, friendly support and a generous returns policy.'',
           description_length = 140,
           canonical = Some ''https://example.com/'' \<rparr>,
       seo_header_counts = \<lparr> h1 = 1, h2 = 0, h3 = 0, h4 = 0, h5 = 0, h6 = 0 \<rparr>,
       seo_images = \<lparr> alt_text_percentage = 100, lazy_loading = 0 \<rparr>,
       seo_schema_markup =
         \<lparr> json_ld_schemas = [''Organization''], microdata = [] \<rparr>,
       seo_local_seo =
         \<lparr> nap_phone = False, nap_address = False, local_schema = False,
           google_maps_embed = True \<rparr>,
       seo_url_structure = \<lparr> seo_friendly = True, breadcrumbs = False \<rparr>,
       seo_page_speed_indicators =
         \<lparr> minification_indicators = [], cdn_usage = False \<rparr> \<rparr>) = 65"
  by (simp add: seo_score_sum header_total_def)

text \<open>
  Claim C5, amended. For every analysis with a non-empty title of 45 characters, a
  non-empty description of 140 characters, a single H1, 100 percent alt-text coverage,
  one JSON-LD block, a canonical link and a Google Maps embed, the score is 60 plus 5
  for each of: at least three header tags, a lazy-loaded image, NAP phone and address,
  LocalBusiness schema, SEO-friendly URL, breadcrumbs, a minification indicator, CDN
  usage. So it lies between 60 and 100, and it is 100 exactly when all eight hold. The
  canonical link and the Google Maps embed add nothing.
\<close>

theorem seo_boundary_document_score:
  assumes "truthy (title (seo_meta_tags sa))"
      and "title_length (seo_meta_tags sa) = 45"
      and "truthy (description (seo_meta_tags sa))"
      and "description_length (seo_meta_tags sa) = 140"
      and "h1 (seo_header_counts sa) = 1"
      and "alt_text_percentage (seo_images sa) = 100"
      and "length (json_ld_schemas (seo_schema_markup sa)) = 1"
      and "canonical (seo_meta_tags sa) \<noteq> None"
      and "google_maps_embed (seo_local_seo sa)"
  shows "calculate_seo_score sa =
           60
           + (if 3 \<le> header_total (seo_header_counts sa) then 5 else 0)
           + (if 0 < lazy_loading (seo_images sa) then 5 else 0)
           + (if nap_phone (seo_local_seo sa) \<and> nap_address (seo_local_seo sa)
              then 5 else 0)
           + (if local_schema (seo_local_seo sa) then 5 else 0)
           + (if seo_friendly (seo_url_structure sa) then 5 else 0)
           + (if breadcrumbs (seo_url_structure sa) then 5 else 0)
           + (if minification_indicators (seo_page_speed_indicators sa) \<noteq> [] then 5 else 0)
           + (if cdn_usage (seo_page_speed_indicators sa) then 5 else 0)
         \<and> 60 \<le> calculate_seo_score sa \<and> calculate_seo_score sa \<le> 100
         \<and> (calculate_seo_score sa = 100) =
             (3 \<le> header_total (seo_header_counts sa)
              \<and> 0 < lazy_loading (seo_images sa)
              \<and> nap_phone (seo_local_seo sa) \<and> nap_address (seo_local_seo sa)
              \<and> local_schema (seo_local_seo sa)
              \<and> seo_friendly (seo_url_structure sa)
              \<and> breadcrumbs (seo_url_structure sa)
              \<and> minification_indicators (seo_page_speed_indicators sa) \<noteq> []
              \<and> cdn_usage (seo_page_speed_indicators sa))"
proof -
  define r1 :: int where
    "r1 = (if 3 \<le> header_total (seo_header_counts sa) then 5 else 0)"
  define r2 :: int where "r2 = (if 0 < lazy_loading (seo_images sa) then 5 else 0)"
  define r3 :: int where
    "r3 = (if nap_phone (seo_local_seo sa) \<and> nap_address (seo_local_seo sa) then 5 else 0)"
  define r4 :: int where "r4 = (if local_schema (seo_local_seo sa) then 5 else 0)"
  define r5 :: int where "r5 = (if seo_friendly (seo_url_structure sa) then 5 else 0)"
  define r6 :: int where "r6 = (if breadcrumbs (seo_url_structure sa) then 5 else 0)"
  define r7 :: int where
    "r7 = (if minification_indicators (seo_page_speed_indicators sa) \<noteq> [] then 5 else 0)"
  define r8 :: int where "r8 = (if cdn_usage (seo_page_speed_indicators sa) then 5 else 0)"
  have t1: "(if truthy (title (seo_meta_tags sa))
          then 10 + (if 30 \<le> title_length (seo_meta_tags sa)
                        \<and> title_length (seo_meta_tags sa) \<le> 60 then 5 else 0)
          else 0) = (15::int)"
    using assms(1,2) by simp
  have t2: "(if truthy (description (seo_meta_tags sa))
          then 5 + (if 120 \<le> description_length (seo_meta_tags sa)
                       \<and> description_length (seo_meta_tags sa) \<le> 160 then 5 else 0)
          else 0) = (10::int)"
    using assms(3,4) by simp
  have t3: "(if h1 (seo_header_counts sa) = 1 then 10 else 0) = (10::int)"
    using assms(5) by simp
  have t5: "(if 80 \<le> alt_text_percentage (seo_images sa) then 10
          else if 50 \<le> alt_text_percentage (seo_images sa) then 5 else 0) = (10::int)"
    using assms(6) by simp
  have schema: "json_ld_schemas (seo_schema_markup sa) \<noteq> []"
    using assms(7) by auto
  have t7: "(if json_ld_schemas (seo_schema_markup sa) \<noteq> []
             \<or> microdata (seo_schema_markup sa) \<noteq> [] then 15 else 0) = (15::int)"
    using schema by simp
  note sw = seo_score_terms [of sa, THEN conjunct1, unfolded t1 t2 t3 t5 t7,
      folded r1_def r2_def r3_def r4_def r5_def r6_def r7_def r8_def]
  have e: "calculate_seo_score sa = 60 + r1 + r2 + r3 + r4 + r5 + r6 + r7 + r8"
    using sw by linarith
  have b1: "0 \<le> r1 \<and> r1 \<le> 5" by (simp add: r1_def)
  have b2: "0 \<le> r2 \<and> r2 \<le> 5" by (simp add: r2_def)
  have b3: "0 \<le> r3 \<and> r3 \<le> 5" by (simp add: r3_def)
  have b4: "0 \<le> r4 \<and> r4 \<le> 5" by (simp add: r4_def)
  have b5: "0 \<le> r5 \<and> r5 \<le> 5" by (simp add: r5_def)
  have b6: "0 \<le> r6 \<and> r6 \<le> 5" by (simp add: r6_def)
  have b7: "0 \<le> r7 \<and> r7 \<le> 5" by (simp add: r7_def)
  have b8: "0 \<le> r8 \<and> r8 \<le> 5" by (simp add: r8_def)
  have c1: "(r1 = 5) = (3 \<le> header_total (seo_header_counts sa))"
    by (simp add: r1_def)
  have c2: "(r2 = 5) = (0 < lazy_loading (seo_images sa))"
    by (simp add: r2_def)
  have c3: "(r3 = 5) = (nap_phone (seo_local_seo sa) \<and> nap_address (seo_local_seo sa))"
    by (simp add: r3_def)
  have c4: "(r4 = 5) = local_schema (seo_local_seo sa)"
    by (simp add: r4_def)
  have c5: "(r5 = 5) = seo_friendly (seo_url_structure sa)"
    by (simp add: r5_def)
  have c6: "(r6 = 5) = breadcrumbs (seo_url_structure sa)"
    by (simp add: r6_def)
  have c7: "(r7 = 5) = (minification_indicators (seo_page_speed_indicators sa) \<noteq> [])"
    by (simp add: r7_def)
  have c8: "(r8 = 5) = cdn_usage (seo_page_speed_indicators sa)"
    by (simp add: r8_def)
  have range: "60 \<le> calculate_seo_score sa \<and> calculate_seo_score sa \<le> 100"
    using e b1 b2 b3 b4 b5 b6 b7 b8 by linarith
  have all5: "r1 = 5 \<and> r2 = 5 \<and> r3 = 5 \<and> r4 = 5 \<and> r5 = 5 \<and> r6 = 5 \<and> r7 = 5 \<and> r8 = 5"
    if "calculate_seo_score sa = 100"
  proof (intro conjI)
    show "r1 = 5" using that e b1 b2 b3 b4 b5 b6 b7 b8 by linarith
    show "r2 = 5" using that e b1 b2 b3 b4 b5 b6 b7 b8 by linarith
    show "r3 = 5" using that e b1 b2 b3 b4 b5 b6 b7 b8 by linarith
    show "r4 = 5" using that e b1 b2 b3 b4 b5 b6 b7 b8 by linarith
    show "r5 = 5" using that e b1 b2 b3 b4 b5 b6 b7 b8 by linarith
    show "r6 = 5" using that e b1 b2 b3 b4 b5 b6 b7 b8 by linarith
    show "r7 = 5" using that e b1 b2 b3 b4 b5 b6 b7 b8 by linarith
    show "r8 = 5" using that e b1 b2 b3 b4 b5 b6 b7 b8 by linarith
  qed
  have is100: "calculate_seo_score sa = 100"
    if "r1 = 5 \<and> r2 = 5 \<and> r3 = 5 \<and> r4 = 5 \<and> r5 = 5 \<and> r6 = 5 \<and> r7 = 5 \<and> r8 = 5"
    using that e by linarith
  have "(calculate_seo_score sa = 100) =
          (r1 = 5 \<and> r2 = 5 \<and> r3 = 5 \<and> r4 = 5 \<and> r5 = 5 \<and> r6 = 5 \<and> r7 = 5 \<and> r8 = 5)"
    using all5 is100 by blast
  then have full: "(calculate_seo_score sa = 100) =
             (3 \<le> header_total (seo_header_counts sa)
              \<and> 0 < lazy_loading (seo_images sa)
              \<and> nap_phone (seo_local_seo sa) \<and> nap_address (seo_local_seo sa)
              \<and> local_schema (seo_local_seo sa)
              \<and> seo_friendly (seo_url_structure sa)
              \<and> breadcrumbs (seo_url_structure sa)
              \<and> minification_indicators (seo_page_speed_indicators sa) \<noteq> []
              \<and> cdn_usage (seo_page_speed_indicators sa))"
    unfolding c1 c2 c3 c4 c5 c6 c7 c8 by (simp only: conj_assoc)
  have e': "calculate_seo_score sa =
           60
           + (if 3 \<le> header_total (seo_header_counts sa) then 5 else 0)
           + (if 0 < lazy_loading (seo_images sa) then 5 else 0)
           + (if nap_phone (seo_local_seo sa) \<and> nap_address (seo_local_seo sa)
              then 5 else 0)
           + (if local_schema (seo_local_seo sa) then 5 else 0)
           + (if seo_friendly (seo_url_structure sa) then 5 else 0)
           + (if breadcrumbs (seo_url_structure sa) then 5 else 0)
           + (if minification_indicators (seo_page_speed_indicators sa) \<noteq> [] then 5 else 0)
           + (if cdn_usage (seo_page_speed_indicators sa) then 5 else 0)"
    by (rule e [unfolded r1_def r2_def r3_def r4_def r5_def r6_def r7_def r8_def])
  from e' range full show ?thesis by (intro conjI) (rule e', simp_all only: simp_thms)
qed

theorem seo_boundary_document_score_witness:
  "truthy (title (seo_meta_tags
     (\<lparr> seo_meta_tags =
         \<lparr> title = Some ''Example Company: Quality Widgets Made To Last'',
           title_length = 45,
           description = Some ''Example Company designs and sells quality widgets for homes and offices, with free delivery, friendly support and a generous returns policy.'',
           description_length = 140,
           canonical = Some ''https://example.com/'' \<rparr>,
       seo_header_counts = \<lparr> h1 = 1, h2 = 2, h3 = 0, h4 = 0, h5 = 0, h6 = 0 \<rparr>,
       seo_images = \<lparr> alt_text_percentage = 100, lazy_loading = 1 \<rparr>,
       seo_schema_markup =
         \<lparr> json_ld_schemas = [''Organization''], microdata = [] \<rparr>,
       seo_local_seo =
         \<lparr> nap_phone = True, nap_address = True, local_schema = True,
           google_maps_embed = True \<rparr>,
       seo_url_structure = \<lparr> seo_friendly = True, breadcrumbs = True \<rparr>,
       seo_page_speed_indicators =
         \<lparr> minification_indicators = [''js''], cdn_usage = True \<rparr> \<rparr>)))
   \<and> title_length (seo_meta_tags
     (\<lparr> seo_meta_tags =
         \<lparr> title = Some ''Example Company: Quality Widgets Made To Last'',
           title_length = 45,
           description = Some ''Example Company designs and sells quality widgets for homes and offices, with free delivery, friendly support and a generous returns policy.'',
           description_length = 140,
           canonical = Some ''https://example.com/'' \<rparr>,
       seo_header_counts = \<lparr> h1 = 1, h2 = 2, h3 = 0, h4 = 0, h5 = 0, h6 = 0 \<rparr>,
       seo_images = \<lparr> alt_text_percentage = 100, lazy_loading = 1 \<rparr>,
       seo_schema_markup =
         \<lparr> json_ld_schemas = [''Organization''], microdata = [] \<rparr>,
       seo_local_seo =
         \<lparr> nap_phone = True, nap_address = True, local_schema = True,
           google_maps_embed = True \<rparr>,
       seo_url_structure = \<lparr> seo_friendly = True, breadcrumbs = True \<rparr>,
       seo_page_speed_indicators =
         \<lparr> minification_indicators = [''js''], cdn_usage = True \<rparr> \<rparr>)) = 45
   \<and> truthy (description (seo_meta_tags
     (\<lparr> seo_meta_tags =
         \<lparr> title = Some ''Example Company: Quality Widgets Made To Last'',
           title_length = 45,
           description = Some ''Example Company designs and sells quality widgets for homes and offices, with free delivery, friendly support and a generous returns policy.'',
           description_length = 140,
           canonical = Some ''https://example.com/'' \<rparr>,
       seo_header_counts = \<lparr> h1 = 1, h2 = 2, h3 = 0, h4 = 0, h5 = 0, h6 = 0 \<rparr>,
       seo_images = \<lparr> alt_text_percentage = 100, lazy_loading = 1 \<rparr>,
       seo_schema_markup =
         \<lparr> json_ld_schemas = [''Organization''], microdata = [] \<rparr>,
       seo_local_seo =
         \<lparr> nap_phone = True, nap_address = True, local_schema = True,
           google_maps_embed = True \<rparr>,
       seo_url_structure = \<lparr> seo_friendly = True, breadcrumbs = True \<rparr>,
       seo_page_speed_indicators =
         \<lparr> minification_indicators = [''js''], cdn_usage = True \<rparr> \<rparr>)))
   \<and> description_length (seo_meta_tags
     (\<lparr> seo_meta_tags =
         \<lparr> title = Some ''Example Company: Quality Widgets Made To Last'',
           title_length = 45,
           description = Some ''Example Company designs and sells quality widgets for homes and offices, with free delivery, friendly support and a generous returns policy.'',
           description_length = 140,
           canonical = Some ''https://example.com/'' \<rparr>,
       seo_header_counts = \<lparr> h1 = 1, h2 = 2, h3 = 0, h4 = 0, h5 = 0, h6 = 0 \<rparr>,
       seo_images = \<lparr> alt_text_percentage = 100, lazy_loading = 1 \<rparr>,
       seo_schema_markup =
         \<lparr> json_ld_schemas = [''Organization''], microdata = [] \<rparr>,
       seo_local_seo =
         \<lparr> nap_phone = True, nap_address = True, local_schema = True,
           google_maps_embed = True \<rparr>,
       seo_url_structure = \<lparr> seo_friendly = True, breadcrumbs = True \<rparr>,
       seo_page_speed_indicators =
         \<lparr> minification_indicators = [''js''], cdn_usage = True \<rparr> \<rparr>)) = 140
   \<and> h1 (seo_header_counts
     (\<lparr> seo_meta_tags =
         \<lparr> title = Some ''Example Company: Quality Widgets Made To Last'',
           title_length = 45,
           description = Some ''Example Company designs and sells quality widgets for homes and offices, with free delivery, friendly support and a generous returns policy.'',
           description_length = 140,
           canonical = Some ''https://example.com/'' \<rparr>,
       seo_header_counts = \<lparr> h1 = 1, h2 = 2, h3 = 0, h4 = 0, h5 = 0, h6 = 0 \<rparr>,
       seo_images = \<lparr> alt_text_percentage = 100, lazy_loading = 1 \<rparr>,
       seo_schema_markup =
         \<lparr> json_ld_schemas = [''Organization''], microdata = [] \<rparr>,
       seo_local_seo =
         \<lparr> nap_phone = True, nap_address = True, local_schema = True,
           google_maps_embed = True \<rparr>,
       seo_url_structure = \<lparr> seo_friendly = True, breadcrumbs = True \<rparr>,
       seo_page_speed_indicators =
         \<lparr> minification_indicators = [''js''], cdn_usage = True \<rparr> \<rparr>)) = 1
   \<and> alt_text_percentage (seo_images
     (\<lparr> seo_meta_tags =
         \<lparr> title = Some ''Example Company: Quality Widgets Made To Last'',
           title_length = 45,
           description = Some ''Example Company designs and sells quality widgets for homes and offices, with free delivery, friendly support and a generous returns policy.'',
           description_length = 140,
           canonical = Some ''https://example.com/'' \<rparr>,
       seo_header_counts = \<lparr> h1 = 1, h2 = 2, h3 = 0, h4 = 0, h5 = 0, h6 = 0 \<rparr>,
       seo_images = \<lparr> alt_text_percentage = 100, lazy_loading = 1 \<rparr>,
       seo_schema_markup =
         \<lparr> json_ld_schemas = [''Organization''], microdata = [] \<rparr>,
       seo_local_seo =
         \<lparr> nap_phone = True, nap_address = True, local_schema = True,
           google_maps_embed = True \<rparr>,
       seo_url_structure = \<lparr> seo_friendly = True, breadcrumbs = True \<rparr>,
       seo_page_speed_indicators =
         \<lparr> minification_indicators = [''js''], cdn_usage = True \<rparr> \<rparr>)) = 100
   \<and> length (json_ld_schemas (seo_schema_markup
     (\<lparr> seo_meta_tags =
         \<lparr> title = Some ''Example Company: Quality Widgets Made To Last'',
           title_length = 45,
           description = Some ''Example Company designs and sells quality widgets for homes and offices, with free delivery, friendly support and a generous returns policy.'',
           description_length = 140,
           canonical = Some ''https://example.com/'' \<rparr>,
       seo_header_counts = \<lparr> h1 = 1, h2 = 2, h3 = 0, h4 = 0, h5 = 0, h6 = 0 \<rparr>,
       seo_images = \<lparr> alt_text_percentage = 100, lazy_loading = 1 \<rparr>,
       seo_schema_markup =
         \<lparr> json_ld_schemas = [''Organization''], microdata = [] \<rparr>,
       seo_local_seo =
         \<lparr> nap_phone = True, nap_address = True, local_schema = True,
           google_maps_embed = True \<rparr>,
       seo_url_structure = \<lparr> seo_friendly = True, breadcrumbs = True \<rparr>,
       seo_page_speed_indicators =
         \<lparr> minification_indicators = [''js''], cdn_usage = True \<rparr> \<rparr>))) = 1
   \<and> canonical (seo_meta_tags
     (\<lparr> seo_meta_tags =
         \<lparr> title = Some ''Example Company: Quality Widgets Made To Last'',
           title_length = 45,
           description = Some ''Example Company designs and sells quality widgets for homes and offices, with free delivery, friendly support and a generous returns policy.'',
           description_length = 140,
           canonical = Some ''https://example.com/'' \<rparr>,
       seo_header_counts = \<lparr> h1 = 1, h2 = 2, h3 = 0, h4 = 0, h5 = 0, h6 = 0 \<rparr>,
       seo_images = \<lparr> alt_text_percentage = 100, lazy_loading = 1 \<rparr>,
       seo_schema_markup =
         \<lparr> json_ld_schemas = [''Organization''], microdata = [] \<rparr>,
       seo_local_seo =
         \<lparr> nap_phone = True, nap_address = True, local_schema = True,
           google_maps_embed = True \<rparr>,
       seo_url_structure = \<lparr> seo_friendly = True, breadcrumbs = True \<rparr>,
       seo_page_speed_indicators =
         \<lparr> minification_indicators = [''js''], cdn_usage = True \<rparr> \<rparr>)) \<noteq> None
   \<and> google_maps_embed (seo_local_seo
     (\<lparr> seo_meta_tags =
         \<lparr> title = Some ''Example Company: Quality Widgets Made To Last'',
           title_length = 45,
           description = Some ''Example Company designs and sells quality widgets for homes and offices, with free delivery, friendly support and a generous returns policy.'',
           description_length = 140,
           canonical = Some ''https://example.com/'' \<rparr>,
       seo_header_counts = \<lparr> h1 = 1, h2 = 2, h3 = 0, h4 = 0, h5 = 0, h6 = 0 \<rparr>,
       seo_images = \<lparr> alt_text_percentage = 100, lazy_loading = 1 \<rparr>,
       seo_schema_markup =
         \<lparr> json_ld_schemas = [''Organization''], microdata = [] \<rparr>,
       seo_local_seo =
         \<lparr> nap_phone = True, nap_address = True, local_schema = True,
           google_maps_embed = True \<rparr>,
       seo_url_structure = \<lparr> seo_friendly = True, breadcrumbs = True \<rparr>,
       seo_page_speed_indicators =
         \<lparr> minification_indicators = [''js''], cdn_usage = True \<rparr> \<rparr>))
   \<and> calculate_seo_score
     (\<lparr> seo_meta_tags =
         \<lparr> title = Some ''Example Company: Quality Widgets Made To Last'',
           title_length = 45,
           description = Some ''Example Company designs and sells quality widgets for homes and offices, with free delivery, friendly support and a generous returns policy.'',
           description_length = 140,
           canonical = Some ''https://example.com/'' \<rparr>,
       seo_header_counts = \<lparr> h1 = 1, h2 = 2, h3 = 0, h4 = 0, h5 = 0, h6 = 0 \<rparr>,
       seo_images = \<lparr> alt_text_percentage = 100, lazy_loading = 1 \<rparr>,
       seo_schema_markup =
         \<lparr> json_ld_schemas = [''Organization''], microdata = [] \<rparr>,
       seo_local_seo =
         \<lparr> nap_phone = True, nap_address = True, local_schema = True,
           google_maps_embed = True \<rparr>,
       seo_url_structure = \<lparr> seo_friendly = True, breadcrumbs = True \<rparr>,
       seo_page_speed_indicators =
         \<lparr> minification_indicators = [''js''], cdn_usage = True \<rparr> \<rparr>) = 100"
proof -
  let ?sa = "\<lparr> seo_meta_tags =
         \<lparr> title = Some ''Example Company: Quality Widgets Made To Last'',
           title_length = 45,
           description = Some ''Example Company designs and sells quality widgets for homes and offices, with free delivery, friendly support and a generous returns policy.'',
           description_length = 140,
           canonical = Some ''https://example.com/'' \<rparr>,
       seo_header_counts = \<lparr> h1 = 1, h2 = 2, h3 = 0, h4 = 0, h5 = 0, h6 = 0 \<rparr>,
       seo_images = \<lparr> alt_text_percentage = 100, lazy_loading = 1 \<rparr>,
       seo_schema_markup =
         \<lparr> json_ld_schemas = [''Organization''], microdata = [] \<rparr>,
       seo_local_seo =
         \<lparr> nap_phone = True, nap_address = True, local_schema = True,
           google_maps_embed = True \<rparr>,
       seo_url_structure = \<lparr> seo_friendly = True, breadcrumbs = True \<rparr>,
       seo_page_speed_indicators =
         \<lparr> minification_indicators = [''js''], cdn_usage = True \<rparr> \<rparr>"
  have h1: "truthy (title (seo_meta_tags ?sa))" by simp
  have h2: "title_length (seo_meta_tags ?sa) = 45" by simp
  have h3: "truthy (description (seo_meta_tags ?sa))" by simp
  have h4: "description_length (seo_meta_tags ?sa) = 140" by simp
  have h5: "h1 (seo_header_counts ?sa) = 1" by simp
  have h6: "alt_text_percentage (seo_images ?sa) = 100" by simp
  have h7: "length (json_ld_schemas (seo_schema_markup ?sa)) = 1" by simp
  have h8: "canonical (seo_meta_tags ?sa) \<noteq> None" by simp
  have h9: "google_maps_embed (seo_local_seo ?sa)" by simp
  have "(calculate_seo_score ?sa = 100) =
             (3 \<le> header_total (seo_header_counts ?sa)
              \<and> 0 < lazy_loading (seo_images ?sa)
              \<and> nap_phone (seo_local_seo ?sa) \<and> nap_address (seo_local_seo ?sa)
              \<and> local_schema (seo_local_seo ?sa)
              \<and> seo_friendly (seo_url_structure ?sa)
              \<and> breadcrumbs (seo_url_structure ?sa)
              \<and> minification_indicators (seo_page_speed_indicators ?sa) \<noteq> []
              \<and> cdn_usage (seo_page_speed_indicators ?sa))"
    using seo_boundary_document_score [OF h1 h2 h3 h4 h5 h6 h7 h8 h9] by blast
  then have "calculate_seo_score ?sa = 100"
    by (simp add: header_total_def)
  with h1 h2 h3 h4 h5 h6 h7 h8 h9 show ?thesis by blast
qed

section \<open>Properties of the technology detection\<close>

lemma match_patterns_count:
  "match_patterns search weight label s pats (sc, ev) =
     (sc + weight * int (length (filter (\<lambda>p. search p s) pats)),
      ev @ map (\<lambda>p. label @ ''_'' @ p) (filter (\<lambda>p. search p s) pats))"
  by (induction pats arbitrary: sc ev) (simp_all add: algebra_simps)

lemma check_indicators_count:
  "check_indicators page_html inds (sc, ev) =
     (sc + 3 * int (length (filter (\<lambda>i. str_in (lower i) page_html) inds)),
      ev @ map (\<lambda>i. ''indicator_'' @ i) (filter (\<lambda>i. str_in (lower i) page_html) inds))"
  by (induction inds arbitrary: sc ev) simp_all

lemma check_scripts_count:
  "check_scripts search pats scripts (sc, ev) =
     (sc + 3 * int (length (concat (map (attr_matches search pats) scripts))),
      ev @ map (\<lambda>p. ''script_'' @ p) (concat (map (attr_matches search pats) scripts)))"
  by (induction scripts arbitrary: sc ev)
     (simp_all add: attr_matches_def match_patterns_count algebra_simps split: option.split)

lemma check_links_count:
  "check_links search pats links (sc, ev) =
     (sc + 2 * int (length (concat (map (attr_matches search pats) links))),
      ev @ map (\<lambda>p. ''link_'' @ p) (concat (map (attr_matches search pats) links)))"
  by (induction links arbitrary: sc ev)
     (simp_all add: attr_matches_def match_patterns_count algebra_simps split: option.split)

lemma detect_technology_score:
  "fst (detect_technology search sp config) =
       2 * int (length (filter (\<lambda>p. search p (lower (page_source sp))) (patterns config)))
     + 3 * int (length (filter (\<lambda>i. str_in (lower i) (lower (page_source sp)))
                          (indicators config)))
     + 3 * int (length (concat (map (attr_matches search (patterns config)) (script_srcs sp))))
     + 2 * int (length (concat (map (attr_matches search (patterns config)) (link_hrefs sp))))"
  by (simp add: detect_technology_def Let_def match_patterns_count check_indicators_count
      check_scripts_count check_links_count)

lemma detect_technology_nonneg: "0 \<le> fst (detect_technology search sp config)"
  by (simp add: detect_technology_score)

lemma detect_all_lookup:
  "distinct (map fst tps) \<Longrightarrow>
   map_of (fst (detect_all search sp tps (det, soph))) tech =
     (case map_of tps tech of
        None \<Rightarrow> map_of det tech
      | Some config \<Rightarrow>
          if fst (detect_technology search sp config) > 0
          then Some \<lparr> confidence = min (fst (detect_technology search sp config) * 10) 100,
                      evidence = snd (detect_technology search sp config),
                      detected_category = tech_category config,
                      detected_cost_indicator = cost_indicator config,
                      detected_agency_opportunity = agency_opportunity config \<rparr>
          else map_of det tech)"
proof (induction tps arbitrary: det soph)
  case Nil
  then show ?case by simp
next
  case (Cons a tps)
  obtain t c where a: "a = (t, c)" by (cases a)
  from Cons.prems a have d: "distinct (map fst tps)" and nt: "t \<notin> fst ` set tps"
    by auto
  from nt have mt: "map_of tps t = None"
    by (simp add: map_of_eq_None_iff)
  show ?case
    using Cons.IH [OF d] mt
    by (auto simp: a update_conv' split: prod.splits option.splits)
qed

lemma detect_all_sum:
  "snd (detect_all search sp tps (det, soph)) =
     soph + sum_list (map (\<lambda>(tech, config). fst (detect_technology search sp config)) tps)"
proof (induction tps arbitrary: det soph)
  case Nil
  then show ?case by simp
next
  case (Cons a tps)
  obtain t c where a: "a = (t, c)" by (cases a)
  have nn: "0 \<le> fst (detect_technology search sp c)"
    by (rule detect_technology_nonneg)
  show ?case
    using Cons.IH nn
    by (auto simp: a split: prod.splits)
qed

text \<open>
  Claim C6. For a technology of \<open>tech_patterns\<close>, the detection score is 2 for every
  pattern found in the lowered page HTML, 3 for every indicator whose lowered form is a
  substring of it, 3 for every pattern found in a script's non-empty \<open>src\<close> and 2 for
  every pattern found in a link's non-empty \<open>href\<close>. The technology is reported exactly
  when the score is positive, and its confidence is the minimum of ten times the score
  and 100. The keys of \<open>tech_patterns\<close> are distinct, as those of a dictionary are.
\<close>

theorem tech_detection_weights:
  assumes "distinct (map fst tech_patterns)"
      and "map_of tech_patterns tech = Some config"
  shows "fst (detect_technology search sp config) =
             2 * int (length (filter (\<lambda>p. search p (lower (page_source sp)))
                                (patterns config)))
           + 3 * int (length (filter (\<lambda>i. str_in (lower i) (lower (page_source sp)))
                                (indicators config)))
           + 3 * int (length (concat (map (attr_matches search (patterns config))
                                       (script_srcs sp))))
           + 2 * int (length (concat (map (attr_matches search (patterns config))
                                       (link_hrefs sp))))
         \<and> map_option confidence
             (map_of (fst (analyze_tech_stack search tech_patterns sp)) tech) =
             (if 0 < fst (detect_technology search sp config)
              then Some (min (10 * fst (detect_technology search sp config)) 100)
              else None)"
proof
  show "fst (detect_technology search sp config) =
             2 * int (length (filter (\<lambda>p. search p (lower (page_source sp)))
                                (patterns config)))
           + 3 * int (length (filter (\<lambda>i. str_in (lower i) (lower (page_source sp)))
                                (indicators config)))
           + 3 * int (length (concat (map (attr_matches search (patterns config))
                                       (script_srcs sp))))
           + 2 * int (length (concat (map (attr_matches search (patterns config))
                                       (link_hrefs sp))))"
    by (rule detect_technology_score)
  show "map_option confidence
             (map_of (fst (analyze_tech_stack search tech_patterns sp)) tech) =
             (if 0 < fst (detect_technology search sp config)
              then Some (min (10 * fst (detect_technology search sp config)) 100)
              else None)"
    unfolding analyze_tech_stack_def
    using detect_all_lookup [OF assms(1), of search sp "[]" 0 tech] assms(2)
    by (simp add: mult.commute)
qed

theorem tech_detection_weights_witness:
  "distinct (map fst
      [(''wordpress'',
        \<lparr> patterns = [''wp-content'', ''wp-includes'', ''/wordpress/''],
          indicators = [''wp-json'', ''xmlrpc.php''],
          tech_category = ''cms'', cost_indicator = ''low'',
          agency_opportunity = ''high'' \<rparr>)])
   \<and> map_of
      [(''wordpress'',
        \<lparr> patterns = [''wp-content'', ''wp-includes'', ''/wordpress/''],
          indicators = [''wp-json'', ''xmlrpc.php''],
          tech_category = ''cms'', cost_indicator = ''low'',
          agency_opportunity = ''high'' \<rparr>)] ''wordpress'' =
      Some \<lparr> patterns = [''wp-content'', ''wp-includes'', ''/wordpress/''],
          indicators = [''wp-json'', ''xmlrpc.php''],
          tech_category = ''cms'', cost_indicator = ''low'',
          agency_opportunity = ''high'' \<rparr>
   \<and> fst (detect_technology str_in
        \<lparr> page_source = ''<link href=/wp-includes/s.css><script src=/WP-Content/a.js></script>'',
          script_srcs = [Some ''/WP-Content/a.js'', None],
          link_hrefs = [Some ''/wp-includes/s.css''] \<rparr>
        \<lparr> patterns = [''wp-content'', ''wp-includes'', ''/wordpress/''],
          indicators = [''wp-json'', ''xmlrpc.php''],
          tech_category = ''cms'', cost_indicator = ''low'',
          agency_opportunity = ''high'' \<rparr>) = 9
   \<and> map_option confidence
        (map_of (fst (analyze_tech_stack str_in
           [(''wordpress'',
             \<lparr> patterns = [''wp-content'', ''wp-includes'', ''/wordpress/''],
               indicators = [''wp-json'', ''xmlrpc.php''],
               tech_category = ''cms'', cost_indicator = ''low'',
               agency_opportunity = ''high'' \<rparr>)]
           \<lparr> page_source = ''<link href=/wp-includes/s.css><script src=/WP-Content/a.js></script>'',
             script_srcs = [Some ''/WP-Content/a.js'', None],
             link_hrefs = [Some ''/wp-includes/s.css''] \<rparr>)) ''wordpress'') = Some 90"
proof -
  let ?config = "\<lparr> patterns = [''wp-content'', ''wp-includes'', ''/wordpress/''],
          indicators = [''wp-json'', ''xmlrpc.php''],
          tech_category = ''cms'', cost_indicator = ''low'',
          agency_opportunity = ''high'' \<rparr>"
  let ?sp = "\<lparr> page_source = ''<link href=/wp-includes/s.css><script src=/WP-Content/a.js></script>'',
          script_srcs = [Some ''/WP-Content/a.js'', None],
          link_hrefs = [Some ''/wp-includes/s.css''] \<rparr>"
  have h1: "distinct (map fst [(''wordpress'', ?config)])" by simp
  have h2: "map_of [(''wordpress'', ?config)] ''wordpress'' = Some ?config" by simp
  have l1: "lower ''<link href=/wp-includes/s.css><script src=/WP-Content/a.js></script>''
              = ''<link href=/wp-includes/s.css><script src=/wp-content/a.js></script>''"
    by (simp add: lower_def lower_char_def)
  have l2: "lower ''/WP-Content/a.js'' = ''/wp-content/a.js''"
    by (simp add: lower_def lower_char_def)
  have l3: "lower ''/wp-includes/s.css'' = ''/wp-includes/s.css''"
    by (simp add: lower_def lower_char_def)
  have l4: "lower ''wp-json'' = ''wp-json''" "lower ''xmlrpc.php'' = ''xmlrpc.php''"
    by (simp_all add: lower_def lower_char_def)
  note w = tech_detection_weights [OF h1 h2, of str_in ?sp]
  have s: "fst (detect_technology str_in ?sp ?config) = 9"
    using w by (simp add: l1 l2 l3 l4 attr_matches_def)
  have c: "map_option confidence
        (map_of (fst (analyze_tech_stack str_in [(''wordpress'', ?config)] ?sp)) ''wordpress'')
          = Some 90"
    using w s by simp
  from h1 h2 s c show ?thesis by blast
qed

section \<open>Properties of the recommendation merge\<close>

lemma tag_opportunities_append:
  "tag_opportunities atype opps acc =
     acc @ map (\<lambda>opp. opp\<lparr>category := Some (str_replace ''_analysis'' [] atype)\<rparr>) opps"
  by (induction opps arbitrary: acc) simp_all

lemma collect_opportunities_concat:
  "collect_opportunities analysis acc =
     acc @ concat (map (\<lambda>(atype, adata).
                          case adata of
                            Dict (Some opps) \<Rightarrow>
                              map (\<lambda>opp. opp\<lparr>category :=
                                     Some (str_replace ''_analysis'' [] atype)\<rparr>) opps
                          | _ \<Rightarrow> []) analysis)"
proof (induction analysis arbitrary: acc)
  case Nil
  then show ?case by simp
next
  case (Cons a analysis)
  obtain t d where a: "a = (t, d)" by (cases a)
  show ?case
    by (simp add: a Cons.IH tag_opportunities_append split: analysis_value.split option.split)
qed

text \<open>
  Claim C3. The merged recommendation list is the stable sort, by priority rank (high 0,
  medium 1, low 2, anything else 3), of the concatenation of the detectors' opportunity
  lists in the order of \<open>analysis\<close>, each opportunity tagged with the name of its
  analysis without \<open>_analysis\<close>. Ranks never decrease from one position to the next,
  opportunities of equal rank keep their relative order, and nothing is dropped or added:
  the result has the same elements with the same multiplicities.
\<close>

theorem recommendations_stable_sorted:
  fixes analysis :: "(string \<times> analysis_value) list"
  defines "tagged \<equiv>
     concat (map (\<lambda>(atype, adata).
                    case adata of
                      Dict (Some opps) \<Rightarrow>
                        map (\<lambda>opp. opp\<lparr>category :=
                               Some (str_replace ''_analysis'' [] atype)\<rparr>) opps
                    | _ \<Rightarrow> []) analysis)"
  shows "generate_recommendations analysis
           = sort_key (\<lambda>x. priority_order (priority x)) tagged
       \<and> (\<forall>i. Suc i < length (generate_recommendations analysis) \<longrightarrow>
              priority_order (priority (generate_recommendations analysis ! i))
                \<le> priority_order (priority (generate_recommendations analysis ! Suc i)))
       \<and> (\<forall>k. filter (\<lambda>x. priority_order (priority x) = k)
                   (generate_recommendations analysis)
               = filter (\<lambda>x. priority_order (priority x) = k) tagged)
       \<and> mset (generate_recommendations analysis) = mset tagged
       \<and> length (generate_recommendations analysis) = length tagged"
proof -
  let ?rank = "\<lambda>x. priority_order (priority x)"
  have g: "generate_recommendations analysis = sort_key ?rank tagged"
    by (simp add: generate_recommendations_def collect_opportunities_concat tagged_def)
  have srt: "sorted (map ?rank (sort_key ?rank tagged))"
    by (rule sorted_sort_key)
  have adj: "\<forall>i. Suc i < length (sort_key ?rank tagged) \<longrightarrow>
               ?rank (sort_key ?rank tagged ! i) \<le> ?rank (sort_key ?rank tagged ! Suc i)"
  proof (intro allI impI)
    fix i
    assume i: "Suc i < length (sort_key ?rank tagged)"
    then have "map ?rank (sort_key ?rank tagged) ! i
                 \<le> map ?rank (sort_key ?rank tagged) ! Suc i"
      using srt by (simp add: sorted_iff_nth_Suc)
    with i show "?rank (sort_key ?rank tagged ! i) \<le> ?rank (sort_key ?rank tagged ! Suc i)"
      by simp
  qed
  have stab: "\<forall>k. filter (\<lambda>x. ?rank x = k) (sort_key ?rank tagged)
                   = filter (\<lambda>x. ?rank x = k) tagged"
    by (simp add: sort_key_stable)
  have ms: "mset (sort_key ?rank tagged) = mset tagged"
    by simp
  have len: "length (sort_key ?rank tagged) = length tagged"
    by simp
  show ?thesis
    unfolding g using adj stab ms len by blast
qed

theorem recommendations_stable_sorted_witness:
  "Suc 0 < length (generate_recommendations
      [(''chatbot_analysis'',
        Dict (Some [\<lparr>priority = ''low'', recommendation = ''Add a greeting'',
                      implementation = ''i1'', impact = ''m1'', category = None\<rparr>,
                    \<lparr>priority = ''high'', recommendation = ''Add live chat'',
                      implementation = ''i2'', impact = ''m2'', category = None\<rparr>])),
       (''mobile_analysis'', Dict None),
       (''url'', NotADict),
       (''lead_capture_analysis'',
        Dict (Some [\<lparr>priority = ''medium'', recommendation = ''Add a form'',
                      implementation = ''i3'', impact = ''m3'', category = None\<rparr>,
                    \<lparr>priority = ''high'', recommendation = ''Add live chat'',
                      implementation = ''i2'', impact = ''m2'', category = None\<rparr>]))])
   \<and> generate_recommendations
      [(''chatbot_analysis'',
        Dict (Some [\<lparr>priority = ''low'', recommendation = ''Add a greeting'',
                      implementation = ''i1'', impact = ''m1'', category = None\<rparr>,
                    \<lparr>priority = ''high'', recommendation = ''Add live chat'',
                      implementation = ''i2'', impact = ''m2'', category = None\<rparr>])),
       (''mobile_analysis'', Dict None),
       (''url'', NotADict),
       (''lead_capture_analysis'',
        Dict (Some [\<lparr>priority = ''medium'', recommendation = ''Add a form'',
                      implementation = ''i3'', impact = ''m3'', category = None\<rparr>,
                    \<lparr>priority = ''high'', recommendation = ''Add live chat'',
                      implementation = ''i2'', impact = ''m2'', category = None\<rparr>]))]
     = [\<lparr>priority = ''high'', recommendation = ''Add live chat'',
          implementation = ''i2'', impact = ''m2'', category = Some ''chatbot''\<rparr>,
        \<lparr>priority = ''high'', recommendation = ''Add live chat'',
          implementation = ''i2'', impact = ''m2'', category = Some ''lead_capture''\<rparr>,
        \<lparr>priority = ''medium'', recommendation = ''Add a form'',
          implementation = ''i3'', impact = ''m3'', category = Some ''lead_capture''\<rparr>,
        \<lparr>priority = ''low'', recommendation = ''Add a greeting'',
          implementation = ''i1'', impact = ''m1'', category = Some ''chatbot''\<rparr>]
   \<and> priority_order (priority (generate_recommendations
      [(''chatbot_analysis'',
        Dict (Some [\<lparr>priority = ''low'', recommendation = ''Add a greeting'',
                      implementation = ''i1'', impact = ''m1'', category = None\<rparr>,
                    \<lparr>priority = ''high'', recommendation = ''Add live chat'',
                      implementation = ''i2'', impact = ''m2'', category = None\<rparr>])),
       (''mobile_analysis'', Dict None),
       (''url'', NotADict),
       (''lead_capture_analysis'',
        Dict (Some [\<lparr>priority = ''medium'', recommendation = ''Add a form'',
                      implementation = ''i3'', impact = ''m3'', category = None\<rparr>,
                    \<lparr>priority = ''high'', recommendation = ''Add live chat'',
                      implementation = ''i2'', impact = ''m2'', category = None\<rparr>]))] ! 0))
     \<le> priority_order (priority (generate_recommendations
      [(''chatbot_analysis'',
        Dict (Some [\<lparr>priority = ''low'', recommendation = ''Add a greeting'',
                      implementation = ''i1'', impact = ''m1'', category = None\<rparr>,
                    \<lparr>priority = ''high'', recommendation = ''Add live chat'',
                      implementation = ''i2'', impact = ''m2'', category = None\<rparr>])),
       (''mobile_analysis'', Dict None),
       (''url'', NotADict),
       (''lead_capture_analysis'',
        Dict (Some [\<lparr>priority = ''medium'', recommendation = ''Add a form'',
                      implementation = ''i3'', impact = ''m3'', category = None\<rparr>,
                    \<lparr>priority = ''high'', recommendation = ''Add live chat'',
                      implementation = ''i2'', impact = ''m2'', category = None\<rparr>]))] ! Suc 0))"
proof -
  let ?an = "[(''chatbot_analysis'',
        Dict (Some [\<lparr>priority = ''low'', recommendation = ''Add a greeting'',
                      implementation = ''i1'', impact = ''m1'', category = None\<rparr>,
                    \<lparr>priority = ''high'', recommendation = ''Add live chat'',
                      implementation = ''i2'', impact = ''m2'', category = None\<rparr>])),
       (''mobile_analysis'', Dict None),
       (''url'', NotADict),
       (''lead_capture_analysis'',
        Dict (Some [\<lparr>priority = ''medium'', recommendation = ''Add a form'',
                      implementation = ''i3'', impact = ''m3'', category = None\<rparr>,
                    \<lparr>priority = ''high'', recommendation = ''Add live chat'',
                      implementation = ''i2'', impact = ''m2'', category = None\<rparr>]))]"
  note w = recommendations_stable_sorted [of ?an]
  have r1: "str_replace ''_analysis'' [] ''chatbot_analysis'' = ''chatbot''" by simp
  have r2: "str_replace ''_analysis'' [] ''lead_capture_analysis'' = ''lead_capture''" by simp
  have e: "generate_recommendations ?an
     = [\<lparr>priority = ''high'', recommendation = ''Add live chat'',
          implementation = ''i2'', impact = ''m2'', category = Some ''chatbot''\<rparr>,
        \<lparr>priority = ''high'', recommendation = ''Add live chat'',
          implementation = ''i2'', impact = ''m2'', category = Some ''lead_capture''\<rparr>,
        \<lparr>priority = ''medium'', recommendation = ''Add a form'',
          implementation = ''i3'', impact = ''m3'', category = Some ''lead_capture''\<rparr>,
        \<lparr>priority = ''low'', recommendation = ''Add a greeting'',
          implementation = ''i1'', impact = ''m1'', category = Some ''chatbot''\<rparr>]"
    using w [THEN conjunct1] by (simp add: r1 r2 priority_order_def)
  have l: "Suc 0 < length (generate_recommendations ?an)"
    by (simp add: e)
  have "priority_order (priority (generate_recommendations ?an ! 0))
          \<le> priority_order (priority (generate_recommendations ?an ! Suc 0))"
    using w l by blast
  with l e show ?thesis by blast
qed

section \<open>Properties of URL validation and the batch endpoints\<close>

text \<open>
  What \<open>api_server.validate_url\<close> rejects, whatever \<open>urlparse\<close> returns: the missing or
  empty URL, a URL that \<open>urlparse\<close> fails on or gives no scheme or no network location
  for, and a URL whose lowered text, after \<open>https://\<close> was put in front when no scheme
  was there, contains \<open>localhost\<close>, \<open>127.0.0.1\<close> or \<open>0.0.0.0\<close>.
\<close>

lemma validate_url_rejects_empty:
  "validate_url urlparse None = Inl (APIError ''URL is required'' 400)
   \<and> validate_url urlparse (Some []) = Inl (APIError ''URL is required'' 400)"
  by (simp add: validate_url_def)

lemma validate_url_rejects_unparsed:
  assumes "u \<noteq> []"
      and "urlparse (if \<not> (startswith u ''http://'' \<or> startswith u ''https://'')
                     then ''https://'' @ u else u) = None"
  shows "validate_url urlparse (Some u) = Inl (APIError ''Invalid URL format'' 400)"
  using assms by (simp add: validate_url_def Let_def)

lemma validate_url_rejects_no_netloc:
  assumes "u \<noteq> []"
      and "urlparse (if \<not> (startswith u ''http://'' \<or> startswith u ''https://'')
                     then ''https://'' @ u else u) = Some (scheme, netloc)"
      and "scheme = [] \<or> netloc = []"
  shows "validate_url urlparse (Some u) = Inl (APIError ''Invalid URL format'' 400)"
  using assms by (simp add: validate_url_def Let_def)

lemma validate_url_rejects_listed_hosts:
  assumes "dangerous \<in> set [''localhost'', ''127.0.0.1'', ''0.0.0.0'']"
      and "str_in dangerous
             (lower (if \<not> (startswith u ''http://'' \<or> startswith u ''https://'')
                     then ''https://'' @ u else u))"
  shows "\<exists>msg. validate_url urlparse (Some u) = Inl (APIError msg 400)"
proof (cases "u = []")
  case True
  then show ?thesis by (simp add: validate_url_def)
next
  case False
  let ?url = "if \<not> (startswith u ''http://'' \<or> startswith u ''https://'')
              then ''https://'' @ u else u"
  have ex: "list_ex (\<lambda>dangerous. str_in dangerous (lower ?url))
              [''localhost'', ''127.0.0.1'', ''0.0.0.0'']"
    unfolding list_ex_iff using assms by blast
  show ?thesis
  proof (cases "urlparse ?url")
    case None
    with False show ?thesis by (simp add: validate_url_def Let_def)
  next
    case (Some p)
    obtain scheme netloc where p: "p = (scheme, netloc)" by (cases p)
    have "validate_url urlparse (Some u) =
            (if \<not> (scheme \<noteq> [] \<and> netloc \<noteq> [])
             then Inl (APIError ''Invalid URL format'' 400)
             else if list_ex (\<lambda>dangerous. str_in dangerous (lower ?url))
                       [''localhost'', ''127.0.0.1'', ''0.0.0.0'']
             then Inl (APIError ''Invalid URL - localhost not allowed'' 400)
             else Inr ?url)"
      using False Some p unfolding validate_url_def Let_def
      by (simp only: option.case list.simps if_False prod.case)
    with ex show ?thesis by (simp only: if_True split: if_split) blast
  qed
qed

text \<open>
  Claim C9 says that for every incoming analysis request the URL validator rejects empty
  or malformed URLs and loopback targets such as \<open>localhost\<close>, \<open>127.0.0.1\<close> and
  \<open>0.0.0.0\<close> before anything is fetched. The validator of
  \<open>business_intelligence_api.py\<close> does not: the theorem evaluates it at those three
  targets and at a text that is no URL, and it returns each of them, with \<open>https://\<close>
  in front when no scheme was there, for the analyzer to fetch. The validator of
  \<open>api_server.py\<close> rejects the same three targets with status 400.
\<close>

theorem bi_validate_url_accepts_loopback:
  "bi_validate_url (Some ''localhost'') = Inr ''https://localhost''
   \<and> bi_validate_url (Some ''http://127.0.0.1:8080/admin'') = Inr ''http://127.0.0.1:8080/admin''
   \<and> bi_validate_url (Some ''http://0.0.0.0/'') = Inr ''http://0.0.0.0/''
   \<and> bi_validate_url (Some ''not a url'') = Inr ''https://not a url''
   \<and> (\<exists>msg. validate_url urlparse (Some ''localhost'') = Inl (APIError msg 400))
   \<and> (\<exists>msg. validate_url urlparse (Some ''http://127.0.0.1:8080/admin'')
                = Inl (APIError msg 400))
   \<and> (\<exists>msg. validate_url urlparse (Some ''http://0.0.0.0/'') = Inl (APIError msg 400))"
proof (intro conjI)
  show "bi_validate_url (Some ''localhost'') = Inr ''https://localhost''"
    by (simp add: bi_validate_url_def startswith_def)
  show "bi_validate_url (Some ''http://127.0.0.1:8080/admin'')
          = Inr ''http://127.0.0.1:8080/admin''"
    by (simp add: bi_validate_url_def startswith_def)
  show "bi_validate_url (Some ''http://0.0.0.0/'') = Inr ''http://0.0.0.0/''"
    by (simp add: bi_validate_url_def startswith_def)
  show "bi_validate_url (Some ''not a url'') = Inr ''https://not a url''"
    by (simp add: bi_validate_url_def startswith_def)
  show "\<exists>msg. validate_url urlparse (Some ''localhost'') = Inl (APIError msg 400)"
    by (rule validate_url_rejects_listed_hosts [of "''localhost''"])
       (simp_all add: startswith_def lower_def lower_char_def)
  show "\<exists>msg. validate_url urlparse (Some ''http://127.0.0.1:8080/admin'')
                = Inl (APIError msg 400)"
    by (rule validate_url_rejects_listed_hosts [of "''127.0.0.1''"])
       (simp_all add: startswith_def lower_def lower_char_def)
  show "\<exists>msg. validate_url urlparse (Some ''http://0.0.0.0/'') = Inl (APIError msg 400)"
    by (rule validate_url_rejects_listed_hosts [of "''0.0.0.0''"])
       (simp_all add: startswith_def lower_def lower_char_def)
qed

text \<open>
  Claim C7. A batch request whose URL list has more than 5 elements is rejected by both
  batch endpoints with the error \<open>Maximum 5 URLs allowed per batch\<close> and status 400, and
  no URL is passed to the analyzer: the list of analyzer calls is empty. Nothing is
  truncated to the first five.
\<close>

theorem batch_cap_rejects:
  assumes "urls body = Some us"
      and "length us > 5"
  shows "analyze_batch urlparse analyze extract_seo extract_automation as_dict (Some body)
           = (Inl (APIError ''Maximum 5 URLs allowed per batch'' 400), [])
       \<and> batch_lead_scoring bi_analyze summarize (Some body)
           = (Inl (APIError ''Maximum 5 URLs allowed per batch'' 400), [])"
  using assms
  by (auto simp: analyze_batch_def batch_lead_scoring_def)

theorem batch_cap_rejects_witness:
  "urls \<lparr>urls = Some [''a.com'', ''b.com'', ''c.com'', ''d.com'', ''e.com'', ''f.com''],
          analysis_type = ''full''\<rparr>
     = Some [''a.com'', ''b.com'', ''c.com'', ''d.com'', ''e.com'', ''f.com'']
   \<and> length [''a.com'', ''b.com'', ''c.com'', ''d.com'', ''e.com'', ''f.com''] > 5
   \<and> analyze_batch (\<lambda>u. Some (''https'', ''example.com''))
         (\<lambda>n u. Returned (Some u)) (\<lambda>r. r) (\<lambda>r. r) (\<lambda>r. r)
         (Some \<lparr>urls = Some [''a.com'', ''b.com'', ''c.com'', ''d.com'', ''e.com'', ''f.com''],
                 analysis_type = ''full''\<rparr>)
       = (Inl (APIError ''Maximum 5 URLs allowed per batch'' 400), [])
   \<and> batch_lead_scoring (\<lambda>n u. Returned (Some u)) (\<lambda>r. Inr r)
         (Some \<lparr>urls = Some [''a.com'', ''b.com'', ''c.com'', ''d.com'', ''e.com'', ''f.com''],
                 analysis_type = ''full''\<rparr>)
       = (Inl (APIError ''Maximum 5 URLs allowed per batch'' 400), [])"
proof -
  let ?body = "\<lparr>urls = Some [''a.com'', ''b.com'', ''c.com'', ''d.com'', ''e.com'', ''f.com''],
                 analysis_type = ''full''\<rparr>"
  have h1: "urls ?body = Some [''a.com'', ''b.com'', ''c.com'', ''d.com'', ''e.com'', ''f.com'']"
    by simp
  have h2: "length [''a.com'', ''b.com'', ''c.com'', ''d.com'', ''e.com'', ''f.com''] > 5"
    by simp
  from batch_cap_rejects [OF h1 h2] h1 h2 show ?thesis by blast
qed

lemma analyze_each_enumerate:
  "analyze_each analyze process us (res, calls) =
     (res @ map (\<lambda>(i, u). batch_entry_of process u (analyze i u)) (enumerate (length calls) us),
      calls @ us)"
  by (induction us arbitrary: res calls) simp_all

lemma validate_all_length:
  "validate_all urlparse us acc = Inr vs \<Longrightarrow> length vs = length acc + length us"
  by (induction us arbitrary: acc) (auto split: sum.splits)

lemma batch_entry_of_status:
  "entry_url (batch_entry_of process u out) = u
   \<and> (entry_status (batch_entry_of process u out) = ''error'')
       = (out = Returned None \<or> (\<exists>msg. out = Raised msg))
   \<and> (entry_status (batch_entry_of process u out) = ''success'')
       = (\<exists>r. out = Returned (Some r))"
  by (cases out) (auto simp: batch_entry_of_def split: option.split)

text \<open>
  Claim C8. For a batch of one to five URLs that all pass validation, \<open>analyze_batch\<close>
  answers with one entry per URL, in order; the analyzer is called once for each
  validated URL, in order, whatever the earlier calls did. The entry of a URL has status
  \<open>error\<close> exactly when its own analyzer call returned \<open>None\<close> or raised, and status
  \<open>success\<close> exactly when it returned a result, so a failure changes no other entry and
  is not tried again.
\<close>

theorem batch_isolates_failures:
  assumes "urls body = Some us"
      and "us \<noteq> []"
      and "length us \<le> 5"
      and "validate_all urlparse us [] = Inr vs"
  shows "\<exists>resp.
           analyze_batch urlparse analyze extract_seo extract_automation as_dict (Some body)
             = (Inr resp, vs)
         \<and> length vs = length us
         \<and> length (results resp) = length vs
         \<and> (\<forall>i < length vs.
               entry_url (results resp ! i) = vs ! i
             \<and> (entry_status (results resp ! i) = ''error'')
                 = (analyze i (vs ! i) = Returned None
                    \<or> (\<exists>msg. analyze i (vs ! i) = Raised msg))
             \<and> (entry_status (results resp ! i) = ''success'')
                 = (\<exists>r. analyze i (vs ! i) = Returned (Some r)))
         \<and> total_urls resp = length us
         \<and> successful resp + failed resp = length us"
proof -
  define process where
    "process = (if analysis_type body = ''seo'' then extract_seo
                else if analysis_type body = ''automation'' then extract_automation
                else as_dict)"
  define res where
    "res = map (\<lambda>(i, u). batch_entry_of process u (analyze i u)) (enumerate 0 vs)"
  define n where "n = length (filter (\<lambda>r. entry_status r = ''success'') res)"
  define resp where
    "resp = \<lparr> results = res, total_urls = length us, successful = n,
              failed = length us - n \<rparr>"
  have loop: "analyze_each analyze process vs ([], []) = (res, vs)"
    by (simp add: analyze_each_enumerate res_def)
  have run: "analyze_batch urlparse analyze extract_seo extract_automation as_dict (Some body)
               = (Inr resp, vs)"
    using assms loop
    by (simp add: analyze_batch_def Let_def process_def [symmetric] resp_def n_def)
  have lv: "length vs = length us"
    using validate_all_length [OF assms(4)] by simp
  have lr: "length res = length vs"
    by (simp add: res_def)
  have nth: "res ! i = batch_entry_of process (vs ! i) (analyze i (vs ! i))"
    if "i < length vs" for i
    using that by (simp add: res_def nth_enumerate_eq)
  have entries: "\<forall>i < length vs.
               entry_url (results resp ! i) = vs ! i
             \<and> (entry_status (results resp ! i) = ''error'')
                 = (analyze i (vs ! i) = Returned None
                    \<or> (\<exists>msg. analyze i (vs ! i) = Raised msg))
             \<and> (entry_status (results resp ! i) = ''success'')
                 = (\<exists>r. analyze i (vs ! i) = Returned (Some r))"
  proof (intro allI impI)
    fix i
    assume i: "i < length vs"
    have r: "results resp ! i = batch_entry_of process (vs ! i) (analyze i (vs ! i))"
      using nth [OF i] by (simp add: resp_def)
    show "entry_url (results resp ! i) = vs ! i
             \<and> (entry_status (results resp ! i) = ''error'')
                 = (analyze i (vs ! i) = Returned None
                    \<or> (\<exists>msg. analyze i (vs ! i) = Raised msg))
             \<and> (entry_status (results resp ! i) = ''success'')
                 = (\<exists>r. analyze i (vs ! i) = Returned (Some r))"
      unfolding r by (rule batch_entry_of_status)
  qed
  have "n \<le> length res"
    by (simp add: n_def)
  then have counts: "successful resp + failed resp = length us"
    using lr lv by (simp add: resp_def)
  have "length (results resp) = length vs" "total_urls resp = length us"
    using lr by (simp_all add: resp_def)
  with run lv entries counts show ?thesis by blast
qed

theorem batch_isolates_failures_witness:
  "urls \<lparr>urls = Some [''a.com'', ''http://b.org'', ''c.net''], analysis_type = ''full''\<rparr>
     = Some [''a.com'', ''http://b.org'', ''c.net'']
   \<and> [''a.com'', ''http://b.org'', ''c.net''] \<noteq> []
   \<and> length [''a.com'', ''http://b.org'', ''c.net''] \<le> 5
   \<and> validate_all (\<lambda>u. Some (''https'', ''host'')) [''a.com'', ''http://b.org'', ''c.net''] []
       = Inr [''https://a.com'', ''http://b.org'', ''https://c.net'']
   \<and> (\<exists>resp.
         analyze_batch (\<lambda>u. Some (''https'', ''host''))
           (\<lambda>n u. if n = 1 then Returned None else Returned (Some u))
           (\<lambda>r. r) (\<lambda>r. r) (\<lambda>r. r)
           (Some \<lparr>urls = Some [''a.com'', ''http://b.org'', ''c.net''],
                   analysis_type = ''full''\<rparr>)
           = (Inr resp, [''https://a.com'', ''http://b.org'', ''https://c.net''])
       \<and> entry_status (results resp ! 0) = ''success''
       \<and> entry_status (results resp ! 1) = ''error''
       \<and> entry_status (results resp ! 2) = ''success'')"
proof -
  let ?us = "[''a.com'', ''http://b.org'', ''c.net'']"
  let ?vs = "[''https://a.com'', ''http://b.org'', ''https://c.net'']"
  let ?body = "\<lparr>urls = Some ?us, analysis_type = ''full''\<rparr>"
  let ?urlparse = "\<lambda>u::string. Some (''https'', ''host'')"
  let ?analyze = "\<lambda>(n::nat) (u::string). if n = 1 then Returned None else Returned (Some u)"
  have h1: "urls ?body = Some ?us" by simp
  have h2: "?us \<noteq> []" by simp
  have h3: "length ?us \<le> 5" by simp
  have l1: "lower ''https://a.com'' = ''https://a.com''"
    by (simp add: lower_def lower_char_def)
  have l2: "lower ''http://b.org'' = ''http://b.org''"
    by (simp add: lower_def lower_char_def)
  have l3: "lower ''https://c.net'' = ''https://c.net''"
    by (simp add: lower_def lower_char_def)
  have h4: "validate_all ?urlparse ?us [] = Inr ?vs"
    by (simp add: validate_url_def startswith_def l1 l2 l3)
  from batch_isolates_failures
         [OF h1 h2 h3 h4, of ?analyze "\<lambda>r. r" "\<lambda>r. r" "\<lambda>r. r"]
  obtain resp where
    run: "analyze_batch ?urlparse ?analyze (\<lambda>r. r) (\<lambda>r. r) (\<lambda>r. r) (Some ?body)
            = (Inr resp, ?vs)"
    and len: "length (results resp) = length ?vs"
    and ent: "\<forall>i < length ?vs.
               entry_url (results resp ! i) = ?vs ! i
             \<and> (entry_status (results resp ! i) = ''error'')
                 = (?analyze i (?vs ! i) = Returned None
                    \<or> (\<exists>msg. ?analyze i (?vs ! i) = Raised msg))
             \<and> (entry_status (results resp ! i) = ''success'')
                 = (\<exists>r. ?analyze i (?vs ! i) = Returned (Some r))"
    by blast
  have s0: "entry_status (results resp ! 0) = ''success''"
    using ent [rule_format, of 0] by simp
  have s1: "entry_status (results resp ! 1) = ''error''"
    using ent [rule_format, of 1] by simp
  have s2: "entry_status (results resp ! 2) = ''success''"
    using ent [rule_format, of 2] by simp
  from s0 s1 s2 run h1 h2 h3 h4 show ?thesis by blast
qed

end
